theory Spec2Isabelle
  imports Complex_Main "HOL-Library.Log_Nat"
begin

section \<open>The weather bot: values, errors and the outside world\<close>

text \<open>
  The bot (\<^verbatim>\<open>bot.py\<close>) keeps one \<^verbatim>\<open>BotState\<close> per user in the dictionary
  \<^verbatim>\<open>user_states\<close>, asks OpenWeatherMap for coordinates and weather over HTTP and answers
  through the Telegram transport. The handlers are modelled as functions that pass the
  dictionary and the list of messages sent so far; what the two HTTP endpoints reply and
  whether the transport accepts a message are parameters of the model (\<open>env\<close>).
\<close>

subsection \<open>JSON values as Python sees them\<close>

text \<open>
  \<^verbatim>\<open>response.json()\<close> yields \<^verbatim>\<open>None\<close>, a bool, an int, a float, a str, a list or a dict
  with string keys. A dict is an association list whose first binding of a key is the one
  looked up. A float is the real number it denotes (the non-finite floats are left out).
  The product of line 87 is a float product, rounded as the hardware rounds it
  (\<open>round_to_double\<close> below); the sum of lines 103 and 107 and the rounding of a
  fractional timestamp to microseconds are taken exactly.
\<close>

datatype json =
    JNull
  | JBool bool
  | JInt int
  | JFloat real
  | JStr string
  | JArr "json list"
  | JObj "(string \<times> json) list"

text \<open>
  The exceptions that can reach the \<^verbatim>\<open>except Exception\<close> clause of \<^verbatim>\<open>send_weather\<close>.
  The handler only looks at \<^verbatim>\<open>str(error)\<close>; the three texts the source raises itself are
  told apart, every text a library produces is \<open>LibraryText\<close>.
\<close>

datatype error_text =
    GeoFetchFailed       \<comment> \<open>line 42, the geocoding request did not answer 200\<close>
  | CityNotFound         \<comment> \<open>line 46, the geocoding answer is empty\<close>
  | WeatherFetchFailed   \<comment> \<open>line 59, the weather request did not answer 200\<close>
  | LibraryText

datatype error =
    ValueError error_text
  | KeyError
  | IndexError
  | TypeError
  | AttributeError
  | OverflowError
  | ClientError          \<comment> \<open>raised by the HTTP client: no connection, body is not JSON\<close>
  | TelegramError        \<comment> \<open>raised by the transport when a send is refused\<close>

fun str_error :: "error \<Rightarrow> error_text" where
  "str_error (ValueError t) = t"
| "str_error e = LibraryText"

definition bind_sum :: "error + 'a \<Rightarrow> ('a \<Rightarrow> error + 'b) \<Rightarrow> error + 'b" where
  "bind_sum r f = (case r of Inl e \<Rightarrow> Inl e | Inr x \<Rightarrow> f x)"

text \<open>Truth value of a JSON value (\<^verbatim>\<open>if not data\<close>).\<close>

fun truthy :: "json \<Rightarrow> bool" where
  "truthy JNull = False"
| "truthy (JBool b) = b"
| "truthy (JInt i) = (i \<noteq> 0)"
| "truthy (JFloat x) = (x \<noteq> 0)"
| "truthy (JStr s) = (s \<noteq> [])"
| "truthy (JArr xs) = (xs \<noteq> [])"
| "truthy (JObj kvs) = (kvs \<noteq> [])"

text \<open>\<^verbatim>\<open>v[key]\<close> with a string key: only a dict accepts it.\<close>

fun subscript_key :: "json \<Rightarrow> string \<Rightarrow> error + json" where
  "subscript_key (JObj kvs) k = (case map_of kvs k of None \<Rightarrow> Inl KeyError | Some v \<Rightarrow> Inr v)"
| "subscript_key v k = Inl TypeError"

text \<open>
  \<^verbatim>\<open>v[0]\<close>: the first element of a list, the first character of a string, a
  \<^verbatim>\<open>KeyError\<close> on a dict (its keys are strings), a \<^verbatim>\<open>TypeError\<close> on the rest.
\<close>

fun subscript_0 :: "json \<Rightarrow> error + json" where
  "subscript_0 (JArr []) = Inl IndexError"
| "subscript_0 (JArr (x # xs)) = Inr x"
| "subscript_0 (JStr []) = Inl IndexError"
| "subscript_0 (JStr (c # cs)) = Inr (JStr [c])"
| "subscript_0 (JObj kvs) = Inl KeyError"
| "subscript_0 v = Inl TypeError"

text \<open>\<^verbatim>\<open>v.get(key, default)\<close>: only a dict has the method.\<close>

fun get_default :: "json \<Rightarrow> string \<Rightarrow> json \<Rightarrow> error + json" where
  "get_default (JObj kvs) k d = Inr (case map_of kvs k of None \<Rightarrow> d | Some v \<Rightarrow> v)"
| "get_default v k d = Inl AttributeError"

subsection \<open>Pressure and clock time\<close>

text \<open>Rounding to the nearest integer, a tie to the even one.\<close>

definition round_half_even :: "real \<Rightarrow> int" where
  "round_half_even x =
     (let f = \<lfloor>x\<rfloor>; d = x - of_int f
      in if d < 1 / 2 then f else if 1 / 2 < d then f + 1 else if even f then f else f + 1)"

text \<open>
  Binary floating point (IEEE 754 binary64, Python's \<^verbatim>\<open>float\<close>). \<open>binary_exponent x\<close> is the
  \<open>e\<close> with \<open>2 ^ e \<le> \<bar>x\<bar> < 2 ^ (e + 1)\<close>, read off the bit length of the integer part of
  \<open>\<bar>x\<bar>\<close>, or of \<open>1 / \<bar>x\<bar>\<close> below 1. \<open>round_to_double x\<close> is the multiple of the
  spacing \<open>2 ^ (e - 52)\<close> nearest to \<open>x\<close>, a tie going to the even multiple; below
  \<open>2 ^ (- 1022)\<close> the spacing stays \<open>2 ^ (- 1074)\<close>. It is the result of a float operation
  whose exact result is \<open>x\<close>, as long as it stays below \<open>2 ^ 1024\<close>.
\<close>

definition binary_exponent :: "real \<Rightarrow> int" where
  "binary_exponent x =
     (if 1 \<le> \<bar>x\<bar> then bitlen \<lfloor>\<bar>x\<bar>\<rfloor> - 1 else - bitlen (\<lceil>1 / \<bar>x\<bar>\<rceil> - 1))"

definition round_to_double :: "real \<Rightarrow> real" where
  "round_to_double x =
     (if x = 0 then 0
      else let q = power_int 2 (max (binary_exponent x) (- 1022) - 52)
           in of_int (round_half_even (x / q)) * q)"

text \<open>
  \<^verbatim>\<open>float(p)\<close> of an int, as the product of line 87 converts it: the nearest float, an
  \<^verbatim>\<open>OverflowError\<close> when that is \<open>2 ^ 1024\<close> or more.
\<close>

definition float_of_int :: "int \<Rightarrow> error + real" where
  "float_of_int p =
     (if 2 ^ 1024 \<le> \<bar>round_to_double (of_int p)\<bar> then Inl OverflowError
      else Inr (round_to_double (of_int p)))"

text \<open>\<^verbatim>\<open>int(x)\<close> of a float drops the fractional part (towards zero).\<close>

definition py_int :: "real \<Rightarrow> int" where
  "py_int x = (if 0 \<le> x then \<lfloor>x\<rfloor> else \<lceil>x\<rceil>)"

text \<open>
  Line 87, \<^verbatim>\<open>int(v * 0.75)\<close>: an int is converted to a float, a bool counts as 0 or 1 and
  a float is taken as it is; the product with 0.75 is a float product, rounded; \<^verbatim>\<open>int\<close>
  drops its fraction. A str, a list, a dict or \<^verbatim>\<open>None\<close> times a float is a \<^verbatim>\<open>TypeError\<close>.
\<close>

fun to_mmhg :: "json \<Rightarrow> error + int" where
  "to_mmhg (JInt p) =
     bind_sum (float_of_int p) (\<lambda>x. Inr (py_int (round_to_double (x * 0.75))))"
| "to_mmhg (JFloat x) = Inr (py_int (round_to_double (x * 0.75)))"
| "to_mmhg (JBool b) = Inr (py_int (round_to_double ((if b then 1 else 0) * 0.75)))"
| "to_mmhg v = Inl TypeError"

text \<open>\<^verbatim>\<open>a + b\<close> on JSON values.\<close>

fun py_add :: "json \<Rightarrow> json \<Rightarrow> error + json" where
  "py_add (JInt a) (JInt b) = Inr (JInt (a + b))"
| "py_add (JInt a) (JBool b) = Inr (JInt (a + (if b then 1 else 0)))"
| "py_add (JBool a) (JInt b) = Inr (JInt ((if a then 1 else 0) + b))"
| "py_add (JBool a) (JBool b) = Inr (JInt ((if a then 1 else 0) + (if b then 1 else 0)))"
| "py_add (JInt a) (JFloat b) = Inr (JFloat (of_int a + b))"
| "py_add (JFloat a) (JInt b) = Inr (JFloat (a + of_int b))"
| "py_add (JBool a) (JFloat b) = Inr (JFloat ((if a then 1 else 0) + b))"
| "py_add (JFloat a) (JBool b) = Inr (JFloat (a + (if b then 1 else 0)))"
| "py_add (JFloat a) (JFloat b) = Inr (JFloat (a + b))"
| "py_add (JStr a) (JStr b) = Inr (JStr (a @ b))"
| "py_add (JArr a) (JArr b) = Inr (JArr (a @ b))"
| "py_add a b = Inl TypeError"

text \<open>\<^verbatim>\<open>strftime('%H:%M')\<close> of the moment \<open>t\<close> seconds after the epoch, in UTC.\<close>

definition two_digits :: "int \<Rightarrow> string" where
  "two_digits n = [''0123456789'' ! nat (n div 10), ''0123456789'' ! nat (n mod 10)]"

definition hhmm :: "int \<Rightarrow> string" where
  "hhmm t = two_digits (t mod 86400 div 3600) @ '':'' @ two_digits (t mod 3600 div 60)"

text \<open>
  \<^verbatim>\<open>datetime.utcfromtimestamp(v)\<close>: the seconds of an int, or of a float rounded to
  microseconds; the years 1 to 9999 are the only ones a \<^verbatim>\<open>datetime\<close> holds, outside
  them the call raises. What is not a number is a \<^verbatim>\<open>TypeError\<close>.
\<close>

definition in_datetime_range :: "int \<Rightarrow> bool" where
  "in_datetime_range t = (- 62135596800 \<le> t \<and> t \<le> 253402300799)"

fun timestamp_seconds :: "json \<Rightarrow> error + int" where
  "timestamp_seconds (JInt t) = Inr t"
| "timestamp_seconds (JBool b) = Inr (if b then 1 else 0)"
| "timestamp_seconds (JFloat x) = Inr (round_half_even (x * 1000000) div 1000000)"
| "timestamp_seconds v = Inl TypeError"

definition utcfromtimestamp_hhmm :: "json \<Rightarrow> error + string" where
  "utcfromtimestamp_hhmm v =
     bind_sum (timestamp_seconds v) (\<lambda>t.
       if in_datetime_range t then Inr (hhmm t) else Inl (ValueError LibraryText))"

text \<open>
  Lines 102 to 108: \<^verbatim>\<open>datetime.utcfromtimestamp(sys_data.get(key, 0) + timezone).strftime('%H:%M')\<close>.
\<close>

definition sun_time :: "json \<Rightarrow> string \<Rightarrow> json \<Rightarrow> error + string" where
  "sun_time sys_data key timezone =
     bind_sum (get_default sys_data key (JInt 0)) (\<lambda>epoch.
     bind_sum (py_add epoch timezone) utcfromtimestamp_hhmm)"

subsection \<open>The HTTP provider\<close>

datatype body =
    Unparsable           \<comment> \<open>\<^verbatim>\<open>response.json()\<close> raises\<close>
  | Body json

datatype http_reply =
    NoReply              \<comment> \<open>\<^verbatim>\<open>session.get\<close> raises\<close>
  | Reply int body       \<comment> \<open>the status and the body\<close>

subsection \<open>Outbound messages\<close>

text \<open>
  The texts and button labels of the source are Russian; each is named by a constructor.
  \<open>WeatherMessage temp pressure wind\<close> is the text of lines 90 to 94 and
  \<open>SunTimes sunrise sunset\<close> that of lines 194 to 197, with the values they interpolate.
\<close>

datatype label =
    LblMoscow | LblCapeTown | LblNewYork | LblShanghai | LblOtherCity
  | LblStartOver         \<comment> \<open>lines 115, 146 and 201\<close>
  | LblYes | LblNo
  | LblTryAgain          \<comment> \<open>line 130\<close>

datatype button = InlineKeyboardButton label string   \<comment> \<open>the label and \<^verbatim>\<open>callback_data\<close>\<close>

datatype keyboard = InlineKeyboardMarkup nat "button list"   \<comment> \<open>\<^verbatim>\<open>row_width\<close>, the buttons in the order added\<close>

fun keyboard_add :: "keyboard \<Rightarrow> button list \<Rightarrow> keyboard" where
  "keyboard_add (InlineKeyboardMarkup rw bs) new = InlineKeyboardMarkup rw (bs @ new)"

fun buttons :: "keyboard \<Rightarrow> button list" where
  "buttons (InlineKeyboardMarkup rw bs) = bs"

fun callback_data :: "button \<Rightarrow> string" where
  "callback_data (InlineKeyboardButton l d) = d"

datatype message_text =
    ChooseCity                   \<comment> \<open>line 153\<close>
  | EnterCityName                \<comment> \<open>line 182\<close>
  | WeatherMessage json int json \<comment> \<open>lines 90 to 94\<close>
  | SunQuestion                  \<comment> \<open>line 119\<close>
  | SunTimes string string       \<comment> \<open>lines 194 to 197\<close>
  | NewRequest                   \<comment> \<open>line 204\<close>
  | SomethingWrong               \<comment> \<open>line 125\<close>
  | CityNotFoundTryAnother       \<comment> \<open>line 127\<close>

datatype outbound =
    SendPhoto int json                       \<comment> \<open>the chat and the icon code put into the image URL\<close>
  | SendMessage int message_text "keyboard option"   \<comment> \<open>the chat, the text and \<^verbatim>\<open>reply_markup\<close>\<close>

subsection \<open>State\<close>

datatype mode = greeting | city_choice | other_city | sun_question

record BotState =
  mode :: mode
  sunrise :: string
  sunset :: string

definition new_BotState :: BotState where
  "new_BotState = \<lparr>mode = greeting, sunrise = [], sunset = []\<rparr>"

record world =
  user_states :: "int \<rightharpoonup> BotState"
  sent :: "outbound list"

record env =
  geo_reply :: "string \<Rightarrow> http_reply"            \<comment> \<open>the geocoding endpoint, by city\<close>
  weather_reply :: "json \<Rightarrow> json \<Rightarrow> http_reply"     \<comment> \<open>the weather endpoint, by latitude and longitude\<close>
  delivers :: "outbound \<Rightarrow> bool"                  \<comment> \<open>whether the transport accepts the message\<close>

text \<open>
  A handler step takes the world and returns the world it leaves behind together with
  its value or the exception it raises: what was written before a raise stays written.
\<close>

type_synonym 'a io = "world \<Rightarrow> (error + 'a) \<times> world"

definition return_io :: "'a \<Rightarrow> 'a io" where
  "return_io x w = (Inr x, w)"

definition lift_io :: "error + 'a \<Rightarrow> 'a io" where
  "lift_io r w = (r, w)"

definition bind_io :: "'a io \<Rightarrow> ('a \<Rightarrow> 'b io) \<Rightarrow> 'b io" where
  "bind_io m f w = (case m w of (Inl e, w') \<Rightarrow> (Inl e, w') | (Inr x, w') \<Rightarrow> f x w')"

definition try_except :: "'a io \<Rightarrow> (error \<Rightarrow> 'a io) \<Rightarrow> 'a io" where
  "try_except m h w = (case m w of (Inl e, w') \<Rightarrow> h e w' | (Inr x, w') \<Rightarrow> (Inr x, w'))"

definition send :: "env \<Rightarrow> outbound \<Rightarrow> unit io" where
  "send env m w =
     (if delivers env m then (Inr (), w\<lparr>sent := sent w @ [m]\<rparr>) else (Inl TelegramError, w))"

text \<open>Lines 20 to 24.\<close>

definition get_user_state :: "int \<Rightarrow> BotState io" where
  "get_user_state user_id w =
     (case user_states w user_id of
        None \<Rightarrow> (Inr new_BotState, w\<lparr>user_states := (user_states w)(user_id \<mapsto> new_BotState)\<rparr>)
      | Some s \<Rightarrow> (Inr s, w))"

text \<open>
  An assignment to a field of the object \<^verbatim>\<open>get_user_state(user_id)\<close> returned: the object
  lives in the dictionary, so the entry changes. Every assignment of the source follows a
  \<^verbatim>\<open>get_user_state\<close> for the same user, so the entry is there; without one nothing is
  written.
\<close>

definition assign :: "int \<Rightarrow> (BotState \<Rightarrow> BotState) \<Rightarrow> unit io" where
  "assign user_id f w =
     (case user_states w user_id of
        None \<Rightarrow> (Inr (), w)
      | Some s \<Rightarrow> (Inr (), w\<lparr>user_states := (user_states w)(user_id \<mapsto> f s)\<rparr>))"

text \<open>The mode a user is in: that of the entry, or the one a first contact creates.\<close>

definition mode_of :: "world \<Rightarrow> int \<Rightarrow> mode" where
  "mode_of w user_id = (case user_states w user_id of None \<Rightarrow> greeting | Some s \<Rightarrow> mode s)"

section \<open>The weather client\<close>

text \<open>Lines 34 to 48.\<close>

definition fetch_geo_data :: "env \<Rightarrow> string \<Rightarrow> error + json" where
  "fetch_geo_data env city =
     (case geo_reply env city of
        NoReply \<Rightarrow> Inl ClientError
      | Reply status b \<Rightarrow>
          if status \<noteq> 200 then Inl (ValueError GeoFetchFailed)
          else (case b of
                  Unparsable \<Rightarrow> Inl ClientError
                | Body data \<Rightarrow>
                    if \<not> truthy data then Inl (ValueError CityNotFound)
                    else subscript_0 data))"

text \<open>Lines 51 to 60.\<close>

definition fetch_weather_data :: "env \<Rightarrow> json \<Rightarrow> json \<Rightarrow> error + json" where
  "fetch_weather_data env lat lon =
     (case weather_reply env lat lon of
        NoReply \<Rightarrow> Inl ClientError
      | Reply status b \<Rightarrow>
          if status \<noteq> 200 then Inl (ValueError WeatherFetchFailed)
          else (case b of Unparsable \<Rightarrow> Inl ClientError | Body data \<Rightarrow> Inr data))"

section \<open>The workflow\<close>

text \<open>Line 78, \<^verbatim>\<open>weather['weather'][0].get('icon', '')\<close>.\<close>

definition icon_code :: "json \<Rightarrow> error + json" where
  "icon_code weather =
     bind_sum (subscript_key weather ''weather'') (\<lambda>entries.
     bind_sum (subscript_0 entries) (\<lambda>entry.
     get_default entry ''icon'' (JStr [])))"

definition sun_keyboard :: keyboard where
  "sun_keyboard =
     keyboard_add (InlineKeyboardMarkup 2 [])
       [InlineKeyboardButton LblYes ''yes'',
        InlineKeyboardButton LblNo ''no'',
        InlineKeyboardButton LblStartOver ''start'']"

definition retry_keyboard :: keyboard where
  "retry_keyboard =
     keyboard_add (InlineKeyboardMarkup 3 []) [InlineKeyboardButton LblTryAgain ''start'']"

text \<open>The body of the \<^verbatim>\<open>try\<close>, lines 66 to 122, statement by statement.\<close>

definition send_weather_try :: "env \<Rightarrow> string \<Rightarrow> int \<Rightarrow> int \<Rightarrow> unit io" where
  "send_weather_try env city chat_id user_id =
     bind_io (lift_io (fetch_geo_data env city)) (\<lambda>geo_data.
     bind_io (lift_io (subscript_key geo_data ''lat'')) (\<lambda>lat.
     bind_io (lift_io (subscript_key geo_data ''lon'')) (\<lambda>lon.
     bind_io (lift_io (fetch_weather_data env lat lon)) (\<lambda>weather.
     bind_io (lift_io (icon_code weather)) (\<lambda>icon.
     bind_io (send env (SendPhoto chat_id icon)) (\<lambda>_.
     bind_io (lift_io (get_default weather ''main'' (JObj []))) (\<lambda>main_data.
     bind_io (lift_io (get_default weather ''wind'' (JObj []))) (\<lambda>wind_data.
     bind_io (lift_io (get_default main_data ''temp'' (JStr ''N/A''))) (\<lambda>temp.
     bind_io (lift_io (bind_sum (get_default main_data ''pressure'' (JInt 0)) to_mmhg)) (\<lambda>pressure.
     bind_io (lift_io (get_default wind_data ''speed'' (JStr ''N/A''))) (\<lambda>wind.
     bind_io (send env (SendMessage chat_id (WeatherMessage temp pressure wind) None)) (\<lambda>_.
     bind_io (lift_io (get_default weather ''sys'' (JObj []))) (\<lambda>sys_data.
     bind_io (lift_io (get_default weather ''timezone'' (JInt 0))) (\<lambda>timezone.
     bind_io (get_user_state user_id) (\<lambda>_.
     bind_io (lift_io (sun_time sys_data ''sunrise'' timezone)) (\<lambda>rise.
     bind_io (assign user_id (\<lambda>s. s\<lparr>sunrise := rise\<rparr>)) (\<lambda>_.
     bind_io (lift_io (sun_time sys_data ''sunset'' timezone)) (\<lambda>fall.
     bind_io (assign user_id (\<lambda>s. s\<lparr>sunset := fall\<rparr>)) (\<lambda>_.
     bind_io (send env (SendMessage chat_id SunQuestion (Some sun_keyboard))) (\<lambda>_.
     assign user_id (\<lambda>s. s\<lparr>mode := sun_question\<rparr>)))))))))))))))))))))"

text \<open>The \<^verbatim>\<open>except Exception\<close> clause, lines 124 to 131.\<close>

definition error_message :: "error \<Rightarrow> message_text" where
  "error_message e = (if str_error e = CityNotFound then CityNotFoundTryAnother else SomethingWrong)"

definition send_weather_except :: "env \<Rightarrow> int \<Rightarrow> error \<Rightarrow> unit io" where
  "send_weather_except env chat_id e =
     send env (SendMessage chat_id (error_message e) (Some retry_keyboard))"

text \<open>Lines 63 to 131.\<close>

definition send_weather :: "env \<Rightarrow> string \<Rightarrow> int \<Rightarrow> int \<Rightarrow> unit io" where
  "send_weather env city chat_id user_id =
     try_except (send_weather_try env city chat_id user_id) (send_weather_except env chat_id)"

section \<open>The handlers\<close>

text \<open>
  What a handler reads of a Telegram message and of a callback query. The message of a
  callback query is the one that carries the pressed button.
\<close>

record message =
  msg_from_user :: int
  msg_chat :: int

record callback_query =
  cq_from_user :: int
  cq_data :: string
  cq_message :: message

definition cities :: "(label \<times> string) list" where
  "cities =
     [(LblMoscow, ''Moscow''), (LblCapeTown, ''Cape Town''), (LblNewYork, ''New York''),
      (LblShanghai, ''Shanghai''), (LblOtherCity, ''other''), (LblStartOver, ''start'')]"

definition city_keyboard :: keyboard where
  "city_keyboard =
     foldl (\<lambda>kb (city_name, data). keyboard_add kb [InlineKeyboardButton city_name data])
       (InlineKeyboardMarkup 2 []) cities"

text \<open>Lines 134 to 153.\<close>

definition start_command :: "env \<Rightarrow> message \<Rightarrow> unit io" where
  "start_command env msg =
     bind_io (get_user_state (msg_from_user msg)) (\<lambda>_.
     bind_io (assign (msg_from_user msg) (\<lambda>s. s\<lparr>mode := city_choice\<rparr>)) (\<lambda>_.
     send env (SendMessage (msg_chat msg) ChooseCity (Some city_keyboard))))"

definition new_request_keyboard :: keyboard where
  "new_request_keyboard =
     keyboard_add (InlineKeyboardMarkup 3 []) [InlineKeyboardButton LblStartOver ''start'']"

text \<open>Lines 168 to 207.\<close>

definition button_click :: "env \<Rightarrow> callback_query \<Rightarrow> unit io" where
  "button_click env call =
     bind_io (get_user_state (cq_from_user call)) (\<lambda>state.
       if cq_data call = ''start'' then start_command env (cq_message call)
       else if mode state = city_choice then
         (if cq_data call = ''other'' then
            bind_io (send env (SendMessage (msg_chat (cq_message call)) EnterCityName None)) (\<lambda>_.
            assign (cq_from_user call) (\<lambda>s. s\<lparr>mode := other_city\<rparr>))
          else send_weather env (cq_data call) (msg_chat (cq_message call)) (cq_from_user call))
       else if mode state = sun_question then
         bind_io (if cq_data call = ''yes'' then
                    send env (SendMessage (msg_chat (cq_message call))
                                (SunTimes (sunrise state) (sunset state)) None)
                  else return_io ()) (\<lambda>_.
         bind_io (send env (SendMessage (msg_chat (cq_message call)) NewRequest
                              (Some new_request_keyboard))) (\<lambda>_.
         assign (cq_from_user call) (\<lambda>s. s\<lparr>mode := city_choice\<rparr>)))
       else return_io ())"

section \<open>Notions used in the properties\<close>

text \<open>
  \<open>truncation_of y d\<close>: the integer \<open>d\<close> is \<open>y\<close> with its fractional part dropped, that is
  \<open>y\<close> truncated towards zero.
\<close>

definition truncation_of :: "real \<Rightarrow> int \<Rightarrow> bool" where
  "truncation_of y d =
     (\<bar>of_int d\<bar> \<le> \<bar>y\<bar> \<and> \<bar>y\<bar> < \<bar>of_int d\<bar> + 1 \<and> 0 \<le> of_int d * y)"

text \<open>The two messages of the \<^verbatim>\<open>except\<close> clause.\<close>

fun is_failure_message :: "outbound \<Rightarrow> bool" where
  "is_failure_message (SendMessage chat t kb) = (t = SomethingWrong \<or> t = CityNotFoundTryAnother)"
| "is_failure_message (SendPhoto chat icon) = False"

definition failure_message :: "int \<Rightarrow> error \<Rightarrow> outbound" where
  "failure_message chat_id e = SendMessage chat_id (error_message e) (Some retry_keyboard)"

text \<open>
  \<open>mode_kept w w'\<close>: from \<open>w\<close> to \<open>w'\<close> no user's mode has changed and what has been sent
  in between holds no failure message.
\<close>

definition mode_kept :: "world \<Rightarrow> world \<Rightarrow> bool" where
  "mode_kept w w' =
     ((\<forall>u. mode_of w' u = mode_of w u) \<and>
      (\<exists>new. sent w' = sent w @ new \<and> filter is_failure_message new = []))"

text \<open>A step that keeps the modes however it ends, and one that keeps them when it raises.\<close>

definition steady :: "'a io \<Rightarrow> bool" where
  "steady m = (\<forall>w r w'. m w = (r, w') \<longrightarrow> mode_kept w w')"

definition steady_on_raise :: "'a io \<Rightarrow> bool" where
  "steady_on_raise m = (\<forall>w e w'. m w = (Inl e, w') \<longrightarrow> mode_kept w w')"

text \<open>
  A step that raises the \<^verbatim>\<open>ValueError\<close> of line 46 only when \<open>g\<close>, the outcome of the
  geocoding, is that error.
\<close>

definition not_found_only_from :: "error + json \<Rightarrow> 'a io \<Rightarrow> bool" where
  "not_found_only_from g m =
     (\<forall>w e w'. m w = (Inl e, w') \<longrightarrow> e = ValueError CityNotFound \<longrightarrow> g = Inl e)"

subsection \<open>A sample run\<close>

definition sample_weather :: json where
  "sample_weather =
     JObj [(''weather'', JArr [JObj [(''icon'', JStr ''01d'')]]),
           (''main'', JObj [(''temp'', JFloat 12.5), (''pressure'', JInt 1013)]),
           (''wind'', JObj [(''speed'', JInt 3)]),
           (''sys'', JObj [(''sunrise'', JInt 9000), (''sunset'', JInt 50400)]),
           (''timezone'', JInt 10800)]"

definition sample_geo :: json where
  "sample_geo = JArr [JObj [(''lat'', JFloat 55.75), (''lon'', JFloat 37.62)]]"

definition sample_env :: env where
  "sample_env =
     \<lparr>geo_reply = (\<lambda>city. Reply 200 (Body sample_geo)),
      weather_reply = (\<lambda>lat lon. Reply 200 (Body sample_weather)),
      delivers = (\<lambda>m. True)\<rparr>"

definition sample_world :: world where
  "sample_world =
     \<lparr>user_states = [7 \<mapsto> \<lparr>mode = city_choice, sunrise = [], sunset = []\<rparr>], sent = []\<rparr>"

text \<open>
  Other providers: one that knows no such city, one that is down, one whose weather has no
  \<^verbatim>\<open>weather\<close> key and one whose pressure is a string.
\<close>

definition lost_env :: env where
  "lost_env = sample_env\<lparr>geo_reply := (\<lambda>city. Reply 200 (Body (JArr [])))\<rparr>"

definition down_env :: env where
  "down_env = sample_env\<lparr>geo_reply := (\<lambda>city. Reply 503 Unparsable)\<rparr>"

definition bare_env :: env where
  "bare_env = sample_env\<lparr>weather_reply := (\<lambda>lat lon. Reply 200 (Body (JObj [(''main'', JObj [])])))\<rparr>"

definition odd_env :: env where
  "odd_env = sample_env\<lparr>weather_reply := (\<lambda>lat lon. Reply 200 (Body
     (JObj [(''weather'', JArr [JObj []]), (''main'', JObj [(''pressure'', JStr ''high'')])])))\<rparr>"

text \<open>
  A user who has been asked the sunrise question, and a press of a button with payload
  \<open>d\<close> by user 7 in the private chat 7; the message that carries the button is one the bot
  (user 42) has sent.
\<close>

definition asked_world :: world where
  "asked_world =
     \<lparr>user_states = [7 \<mapsto> \<lparr>mode = sun_question, sunrise = ''05:30'', sunset = ''17:00''\<rparr>],
      sent = []\<rparr>"

definition click :: "string \<Rightarrow> callback_query" where
  "click d = \<lparr>cq_from_user = 7, cq_data = d, cq_message = \<lparr>msg_from_user = 42, msg_chat = 7\<rparr>\<rparr>"

section \<open>Properties\<close>

subsection \<open>Steps of a handler\<close>

lemmas io_defs = bind_io_def lift_io_def return_io_def try_except_def send_def
  get_user_state_def assign_def bind_sum_def


lemma bind_io_Inl:
  "bind_io m f w = (Inl e, w') \<longleftrightarrow>
     m w = (Inl e, w') \<or> (\<exists>x w1. m w = (Inr x, w1) \<and> f x w1 = (Inl e, w'))"
  by (auto simp: bind_io_def split: sum.splits prod.splits)

lemma lift_io_eq: "lift_io r w = (r', w') \<longleftrightarrow> r = r' \<and> w' = w"
  by (auto simp: lift_io_def)

lemma bind_sum_Inr: "bind_sum r f = Inr y \<longleftrightarrow> (\<exists>x. r = Inr x \<and> f x = Inr y)"
  by (auto simp: bind_sum_def split: sum.splits)

lemma bind_sum_Inl:
  "bind_sum r f = Inl e \<longleftrightarrow> r = Inl e \<or> (\<exists>x. r = Inr x \<and> f x = Inl e)"
  by (auto simp: bind_sum_def split: sum.splits)


lemma send_Inl:
  "send env m w = (Inl e, w') \<longleftrightarrow> \<not> delivers env m \<and> e = TelegramError \<and> w' = w"
  by (auto simp: send_def)


lemma get_user_state_Some:
  "user_states w u = Some s \<Longrightarrow> get_user_state u w = (Inr s, w)"
  by (simp add: get_user_state_def)

lemma assign_eq:
  "assign u f w = (r, w') \<longleftrightarrow>
     r = Inr () \<and>
     w' = (case user_states w u of None \<Rightarrow> w
           | Some s \<Rightarrow> w\<lparr>user_states := (user_states w)(u \<mapsto> f s)\<rparr>)"
  by (auto simp: assign_def split: option.splits)


lemma try_except_Inl: "m w = (Inl e, w') \<Longrightarrow> try_except m h w = h e w'"
  by (simp add: try_except_def)

subsection \<open>Floating point\<close>

lemma round_half_even_of_int: "round_half_even (of_int n) = n"
  by (simp add: round_half_even_def)

lemma round_half_even_lower: "\<lfloor>z\<rfloor> \<le> round_half_even z"
  by (simp add: round_half_even_def Let_def)

lemma round_half_even_upper: "round_half_even z \<le> \<lceil>z\<rceil>"
proof (cases "z = of_int \<lfloor>z\<rfloor>")
  case True
  then have "round_half_even z = \<lfloor>z\<rfloor>" by (simp add: round_half_even_def Let_def)
  then show ?thesis by simp
next
  case False
  then have "\<lceil>z\<rceil> = \<lfloor>z\<rfloor> + 1" by (simp add: ceiling_altdef)
  then show ?thesis by (simp add: round_half_even_def Let_def)
qed

lemma binary_exponent_bounds:
  assumes "x \<noteq> 0"
  shows "power_int 2 (binary_exponent x) \<le> \<bar>x\<bar>"
    and "\<bar>x\<bar> < power_int 2 (binary_exponent x + 1)"
proof -
  show "power_int 2 (binary_exponent x) \<le> \<bar>x\<bar>"
  proof (cases "1 \<le> \<bar>x\<bar>")
    case True
    define n where "n = \<lfloor>\<bar>x\<bar>\<rfloor>"
    have n: "0 < n" using True by (simp add: n_def)
    have k: "binary_exponent x = bitlen n - 1" using True by (simp add: binary_exponent_def n_def)
    have k0: "0 \<le> bitlen n - 1" using n by (simp add: bitlen_alt_def)
    have "(2::int) ^ nat (bitlen n - 1) \<le> n" using bitlen_bounds [OF n] by simp
    then have "real_of_int (2 ^ nat (bitlen n - 1)) \<le> real_of_int n" by (simp only: of_int_le_iff)
    also have "\<dots> \<le> \<bar>x\<bar>" by (simp add: n_def)
    finally show ?thesis using k0 by (simp add: k power_int_nonneg_exp)
  next
    case False
    define t where "t = 1 / \<bar>x\<bar>"
    define c where "c = \<lceil>t\<rceil> - 1"
    have x: "0 < \<bar>x\<bar>" using assms by simp
    have t: "1 < t" using False x by (simp add: t_def)
    have c: "0 < c" using t by (simp add: c_def)
    have k: "binary_exponent x = - bitlen c" using False by (simp add: binary_exponent_def c_def t_def)
    have j: "0 \<le> bitlen c" by (rule bitlen_nonneg)
    have "c < 2 ^ nat (bitlen c)" using bitlen_bounds [OF c] by simp
    then have "\<lceil>t\<rceil> \<le> 2 ^ nat (bitlen c)" by (simp add: c_def)
    then have "real_of_int \<lceil>t\<rceil> \<le> real_of_int (2 ^ nat (bitlen c))" by (simp only: of_int_le_iff)
    then have "t \<le> 2 ^ nat (bitlen c)" by (simp add: ceiling_le_iff)
    then have "1 / 2 ^ nat (bitlen c) \<le> \<bar>x\<bar>" using x by (simp add: t_def field_simps)
    then show ?thesis using j by (simp add: k power_int_minus_divide power_int_nonneg_exp)
  qed
  show "\<bar>x\<bar> < power_int 2 (binary_exponent x + 1)"
  proof (cases "1 \<le> \<bar>x\<bar>")
    case True
    define n where "n = \<lfloor>\<bar>x\<bar>\<rfloor>"
    have n: "0 < n" using True by (simp add: n_def)
    have k: "binary_exponent x + 1 = bitlen n" using True by (simp add: binary_exponent_def n_def)
    have k0: "0 \<le> bitlen n" by (rule bitlen_nonneg)
    have "n + 1 \<le> 2 ^ nat (bitlen n)" using bitlen_bounds [OF n] by simp
    then have "real_of_int (n + 1) \<le> real_of_int (2 ^ nat (bitlen n))" by (simp only: of_int_le_iff)
    moreover have "\<bar>x\<bar> < real_of_int (n + 1)" by (simp add: n_def)
    ultimately show ?thesis using k0 by (simp add: k power_int_nonneg_exp)
  next
    case False
    define t where "t = 1 / \<bar>x\<bar>"
    define c where "c = \<lceil>t\<rceil> - 1"
    have x: "0 < \<bar>x\<bar>" using assms by simp
    have t: "1 < t" using False x by (simp add: t_def)
    have c: "0 < c" using t by (simp add: c_def)
    have k: "binary_exponent x + 1 = - (bitlen c - 1)"
      using False by (simp add: binary_exponent_def c_def t_def)
    have j: "0 \<le> bitlen c - 1" using c by (simp add: bitlen_alt_def)
    have "(2::int) ^ nat (bitlen c - 1) \<le> c" using bitlen_bounds [OF c] by simp
    then have "real_of_int (2 ^ nat (bitlen c - 1)) \<le> real_of_int c" by (simp only: of_int_le_iff)
    moreover have "real_of_int c < t" by (simp add: c_def) linarith
    moreover have "real_of_int (2 ^ nat (bitlen c - 1)) = 2 ^ nat (bitlen c - 1)" by simp
    ultimately have "2 ^ nat (bitlen c - 1) < t" by linarith
    then have "\<bar>x\<bar> < 1 / 2 ^ nat (bitlen c - 1)" using x by (simp add: t_def field_simps)
    moreover have "power_int (2::real) (- (bitlen c - 1)) = 1 / 2 ^ nat (bitlen c - 1)"
      using j by (simp only: power_int_minus_divide power_int_nonneg_exp)
    ultimately show ?thesis unfolding k by simp
  qed
qed

lemma binary_exponent_less:
  assumes "x \<noteq> 0" and "\<bar>x\<bar> < power_int 2 k"
  shows "binary_exponent x < k"
proof (rule ccontr)
  assume "\<not> binary_exponent x < k"
  then have "k \<le> binary_exponent x" by simp
  then have "power_int (2::real) k \<le> power_int 2 (binary_exponent x)"
    by (rule power_int_increasing) simp
  with binary_exponent_bounds(1) [OF assms(1)] assms(2) show False by simp
qed

lemma binary_exponent_ge:
  assumes "power_int 2 k \<le> \<bar>x\<bar>"
  shows "k \<le> binary_exponent x"
proof (rule ccontr)
  assume "\<not> k \<le> binary_exponent x"
  then have "binary_exponent x + 1 \<le> k" by simp
  then have "power_int (2::real) (binary_exponent x + 1) \<le> power_int 2 k"
    by (rule power_int_increasing) simp
  moreover have "0 < power_int (2::real) k" by simp
  with assms have "0 < \<bar>x\<bar>" by linarith
  then have "x \<noteq> 0" by auto
  ultimately show False using binary_exponent_bounds(2) [of x] assms by simp
qed

lemma binary_exponent_eqI:
  assumes "power_int 2 k \<le> \<bar>x\<bar>" and "\<bar>x\<bar> < power_int 2 (k + 1)"
  shows "binary_exponent x = k"
proof -
  have "0 < power_int (2::real) k" by simp
  with assms(1) have "0 < \<bar>x\<bar>" by linarith
  then have "x \<noteq> 0" by auto
  from binary_exponent_less [OF this assms(2)] binary_exponent_ge [OF assms(1)]
  show ?thesis by simp
qed


subsection \<open>Rounding to a float\<close>

lemma round_to_double_unfold:
  assumes "power_int 2 k \<le> \<bar>x\<bar>" and "\<bar>x\<bar> < power_int 2 (k + 1)" and "- 1022 \<le> k"
  shows "round_to_double x =
           of_int (round_half_even (x / power_int 2 (k - 52))) * power_int 2 (k - 52)"
proof -
  have "0 < power_int (2::real) k" by simp
  with assms(1) have "0 < \<bar>x\<bar>" by linarith
  then have x: "x \<noteq> 0" by auto
  have "binary_exponent x = k" using assms(1,2) by (rule binary_exponent_eqI)
  with x assms(3) show ?thesis by (simp add: round_to_double_def max_def Let_def)
qed

lemma round_to_double_exact:
  assumes "x = of_int m * power_int 2 k" and "\<bar>m\<bar> < 2 ^ 53" and "- 1074 \<le> k"
  shows "round_to_double x = x"
proof (cases "x = 0")
  case True
  then show ?thesis by (simp add: round_to_double_def)
next
  case False
  define d where "d = max (binary_exponent x) (- 1022) - 52"
  have "\<bar>x\<bar> = of_int \<bar>m\<bar> * power_int 2 k" by (simp add: assms(1) abs_mult)
  also have "\<dots> < 2 ^ 53 * power_int 2 k"
  proof (rule mult_strict_right_mono)
    have "real_of_int \<bar>m\<bar> < real_of_int (2 ^ 53)" using assms(2) by (simp only: of_int_less_iff)
    then show "real_of_int \<bar>m\<bar> < 2 ^ 53" by simp
    show "0 < power_int (2::real) k" by simp
  qed
  also have "\<dots> = power_int 2 (53 + k)" by (simp add: power_int_add)
  finally have "binary_exponent x < 53 + k" using False by (intro binary_exponent_less)
  with assms(3) have dk: "d \<le> k" by (simp add: d_def)
  have q: "power_int (2::real) k = of_int (2 ^ nat (k - d)) * power_int 2 d"
  proof -
    have "power_int (2::real) k = power_int 2 ((k - d) + d)" by simp
    also have "\<dots> = power_int 2 (k - d) * power_int 2 d" by (rule power_int_add) simp
    also have "power_int (2::real) (k - d) = 2 ^ nat (k - d)"
      using dk by (simp add: power_int_nonneg_exp)
    finally show ?thesis by simp
  qed
  have "x / power_int 2 d = of_int (m * 2 ^ nat (k - d))"
    unfolding assms(1) q by simp
  then have "round_half_even (x / power_int 2 d) = m * 2 ^ nat (k - d)"
    by (simp only: round_half_even_of_int)
  then have "round_to_double x = of_int (m * 2 ^ nat (k - d)) * power_int 2 d"
    using False by (simp add: round_to_double_def d_def)
  also have "\<dots> = x" unfolding assms(1) q by simp
  finally show ?thesis .
qed

lemma round_to_double_between:
  assumes "\<bar>y\<bar> < 2 ^ 52"
  shows "of_int \<lfloor>y\<rfloor> \<le> round_to_double y" and "round_to_double y \<le> of_int \<lceil>y\<rceil>"
proof -
  have both: "of_int \<lfloor>y\<rfloor> \<le> round_to_double y \<and> round_to_double y \<le> of_int \<lceil>y\<rceil>"
  proof (cases "y = 0")
    case True
    then show ?thesis by (simp add: round_to_double_def)
  next
    case False
    define d where "d = max (binary_exponent y) (- 1022) - 52"
    define N :: int where "N = 2 ^ nat (- d)"
    have "\<bar>y\<bar> < power_int 2 52" using assms by simp
    with False have "binary_exponent y < 52" by (rule binary_exponent_less)
    then have d: "d < 0" by (simp add: d_def)
    have N: "0 < N" by (simp add: N_def)
    have q: "power_int (2::real) d = 1 / of_int N"
    proof -
      have "power_int (2::real) d = power_int 2 (- (- d))" by simp
      also have "\<dots> = 1 / power_int 2 (- d)" by (rule power_int_minus_divide)
      also have "power_int (2::real) (- d) = 2 ^ nat (- d)"
        using d by (simp add: power_int_nonneg_exp)
      finally show ?thesis by (simp add: N_def)
    qed
    have fl: "round_to_double y = of_int (round_half_even (y * of_int N)) / of_int N"
      using False by (simp add: round_to_double_def d_def [symmetric] q)
    have "of_int (\<lfloor>y\<rfloor> * N) \<le> y * of_int N" using N by (simp add: mult_right_mono)
    then have "\<lfloor>y\<rfloor> * N \<le> \<lfloor>y * of_int N\<rfloor>" by (simp only: le_floor_iff)
    also have "\<dots> \<le> round_half_even (y * of_int N)" by (rule round_half_even_lower)
    finally have "real_of_int (\<lfloor>y\<rfloor> * N) \<le> real_of_int (round_half_even (y * of_int N))"
      by (simp only: of_int_le_iff)
    then have lo: "of_int \<lfloor>y\<rfloor> \<le> round_to_double y"
      using N unfolding fl by (simp add: field_simps)
    have "y * of_int N \<le> of_int (\<lceil>y\<rceil> * N)" using N by (simp add: mult_right_mono)
    then have "\<lceil>y * of_int N\<rceil> \<le> \<lceil>y\<rceil> * N" by (simp only: ceiling_le_iff)
    with round_half_even_upper [of "y * of_int N"]
    have "round_half_even (y * of_int N) \<le> \<lceil>y\<rceil> * N" by linarith
    then have "real_of_int (round_half_even (y * of_int N)) \<le> real_of_int (\<lceil>y\<rceil> * N)"
      by (simp only: of_int_le_iff)
    then have hi: "round_to_double y \<le> of_int \<lceil>y\<rceil>"
      using N unfolding fl by (simp add: field_simps)
    from lo hi show ?thesis by simp
  qed
  from both show "of_int \<lfloor>y\<rfloor> \<le> round_to_double y" by simp
  from both show "round_to_double y \<le> of_int \<lceil>y\<rceil>" by simp
qed

lemma round_to_double_nonneg: "0 \<le> x \<Longrightarrow> 0 \<le> round_to_double x"
proof -
  assume x: "0 \<le> x"
  define q :: real where "q = power_int 2 (max (binary_exponent x) (- 1022) - 52)"
  have q: "0 < q" by (simp add: q_def)
  with x have "0 \<le> x / q" by simp
  then have "0 \<le> \<lfloor>x / q\<rfloor>" by simp
  with round_half_even_lower [of "x / q"] have "0 \<le> round_half_even (x / q)" by linarith
  then have "0 \<le> real_of_int (round_half_even (x / q)) * q" using q by simp
  then show ?thesis by (simp add: round_to_double_def q_def Let_def)
qed

lemma round_to_double_nonpos: "x \<le> 0 \<Longrightarrow> round_to_double x \<le> 0"
proof -
  assume x: "x \<le> 0"
  define q :: real where "q = power_int 2 (max (binary_exponent x) (- 1022) - 52)"
  have q: "0 < q" by (simp add: q_def)
  with x have "x / q \<le> 0" by (simp add: divide_le_0_iff)
  then have "\<lceil>x / q\<rceil> \<le> 0" by (simp add: ceiling_le_iff)
  with round_half_even_upper [of "x / q"] have "round_half_even (x / q) \<le> 0" by linarith
  then have "real_of_int (round_half_even (x / q)) * q \<le> 0" using q by (simp add: mult_le_0_iff)
  then show ?thesis by (simp add: round_to_double_def q_def Let_def)
qed

lemma round_to_double_large:
  assumes "2 ^ 1024 \<le> \<bar>x\<bar>"
  shows "2 ^ 1024 \<le> \<bar>round_to_double x\<bar>"
proof -
  define e where "e = binary_exponent x"
  define q :: real where "q = power_int 2 (e - 52)"
  have "power_int 2 1024 \<le> \<bar>x\<bar>" using assms by simp
  then have e: "1024 \<le> e" unfolding e_def by (rule binary_exponent_ge)
  have x0: "x \<noteq> 0" using assms by auto
  have q: "0 < q" by (simp add: q_def)
  have pe: "power_int (2::real) e = 2 ^ 52 * q"
  proof -
    have "power_int (2::real) e = power_int 2 (52 + (e - 52))" by simp
    also have "\<dots> = power_int 2 52 * power_int 2 (e - 52)" by (rule power_int_add) simp
    finally show ?thesis by (simp add: q_def)
  qed
  have lo: "2 ^ 52 * q \<le> \<bar>x\<bar>"
    using binary_exponent_bounds(1) [OF x0] by (simp add: e_def [symmetric] pe)
  have fl: "round_to_double x = of_int (round_half_even (x / q)) * q"
    using x0 e by (simp add: round_to_double_def e_def [symmetric] q_def max_def Let_def)
  have big: "power_int (2::real) 1024 \<le> power_int 2 e"
    using e by (intro power_int_increasing) simp_all
  have "2 ^ 52 * q \<le> \<bar>round_to_double x\<bar>"
  proof (cases "0 \<le> x")
    case True
    with lo have "of_int (2 ^ 52) \<le> x / q" using q by (simp add: field_simps)
    then have "2 ^ 52 \<le> \<lfloor>x / q\<rfloor>" by (simp only: le_floor_iff)
    with round_half_even_lower [of "x / q"] have "2 ^ 52 \<le> round_half_even (x / q)" by linarith
    then have "real_of_int (2 ^ 52) \<le> real_of_int (round_half_even (x / q))"
      by (simp only: of_int_le_iff)
    then have "2 ^ 52 * q \<le> real_of_int (round_half_even (x / q)) * q" using q by simp
    then show ?thesis unfolding fl by simp
  next
    case False
    with lo have "x / q \<le> of_int (- (2 ^ 52))" using q by (simp add: field_simps)
    then have "\<lceil>x / q\<rceil> \<le> - (2 ^ 52)" by (simp only: ceiling_le_iff)
    with round_half_even_upper [of "x / q"] have "round_half_even (x / q) \<le> - (2 ^ 52)" by linarith
    then have "real_of_int (round_half_even (x / q)) \<le> real_of_int (- (2 ^ 52))"
      by (simp only: of_int_le_iff)
    then have "real_of_int (round_half_even (x / q)) * q \<le> (- (2 ^ 52)) * q"
      using q by (intro mult_right_mono) simp_all
    then show ?thesis unfolding fl by simp
  qed
  with big pe show ?thesis by simp
qed

subsection \<open>Pressure\<close>

lemma py_int_truncation: "truncation_of y (py_int y)"
proof (cases "0 \<le> y")
  case True
  then have "py_int y = \<lfloor>y\<rfloor>" by (simp add: py_int_def)
  moreover have "0 \<le> \<lfloor>y\<rfloor>" using True by simp
  moreover have "of_int \<lfloor>y\<rfloor> \<le> y" "y < of_int \<lfloor>y\<rfloor> + 1" by linarith+
  ultimately show ?thesis using True by (simp add: truncation_of_def)
next
  case False
  then have "py_int y = \<lceil>y\<rceil>" by (simp add: py_int_def)
  moreover have "\<lceil>y\<rceil> \<le> 0" using False by (simp add: ceiling_le_iff)
  moreover have "y \<le> of_int \<lceil>y\<rceil>" "of_int \<lceil>y\<rceil> - 1 < y" by linarith+
  ultimately show ?thesis using False by (simp add: truncation_of_def mult_nonpos_nonpos)
qed

lemma float_of_int_exact:
  assumes "\<bar>p\<bar> < 2 ^ 53"
  shows "float_of_int p = Inr (of_int p)"
proof -
  have e: "round_to_double (of_int p) = of_int p"
    by (rule round_to_double_exact [where m = p and k = 0]) (use assms in simp_all)
  have "real_of_int \<bar>p\<bar> < real_of_int (2 ^ 53)" using assms by (simp only: of_int_less_iff)
  then have "\<bar>real_of_int p\<bar> < 2 ^ 53" by simp
  also have "(2::real) ^ 53 \<le> 2 ^ 1024" by (rule power_increasing) simp_all
  finally have "\<not> 2 ^ 1024 \<le> \<bar>real_of_int p\<bar>" by simp
  then show ?thesis by (simp only: float_of_int_def e if_False)
qed

lemma float_of_int_overflow:
  assumes "2 ^ 1024 \<le> \<bar>p\<bar>"
  shows "float_of_int p = Inl OverflowError"
proof -
  have "real_of_int (2 ^ 1024) \<le> real_of_int \<bar>p\<bar>" using assms by (simp only: of_int_le_iff)
  then have "2 ^ 1024 \<le> \<bar>real_of_int p\<bar>" by simp
  then have "2 ^ 1024 \<le> \<bar>round_to_double (of_int p)\<bar>" by (rule round_to_double_large)
  then show ?thesis by (simp only: float_of_int_def if_True)
qed

lemma to_mmhg_JInt: "to_mmhg (JInt p) = bind_sum (float_of_int p) (\<lambda>f. to_mmhg (JFloat f))"
  by simp

lemma to_mmhg_exact:
  assumes "3 * \<bar>p\<bar> < 2 ^ 53"
  shows "to_mmhg (JInt p) = Inr (py_int (of_int p * 0.75))"
proof -
  have "\<bar>p\<bar> < 2 ^ 53" using assms by simp
  then have f: "float_of_int p = Inr (of_int p)" by (rule float_of_int_exact)
  have "round_to_double (of_int p * 0.75) = of_int p * 0.75"
    by (rule round_to_double_exact [where m = "3 * p" and k = "- 2"])
       (use assms in \<open>simp_all add: abs_mult\<close>)
  moreover have "to_mmhg (JInt p) = Inr (py_int (round_to_double (of_int p * 0.75)))"
    by (simp only: to_mmhg.simps f bind_sum_def sum.case)
  ultimately show ?thesis by (simp only:)
qed

lemma py_int_three_quarters:
  "py_int (of_int p * 0.75) = (if 0 \<le> p then (3 * p) div 4 else - ((3 * (- p)) div 4))"
proof -
  have e: "(of_int p * 0.75 :: real) = of_int (3 * p) / of_int 4" by simp
  show ?thesis
  proof (cases "0 \<le> p")
    case True
    then have "0 \<le> (of_int p * 0.75 :: real)" by simp
    then have "py_int (of_int p * 0.75) = \<lfloor>of_int (3 * p) / of_int 4 :: real\<rfloor>"
      unfolding py_int_def e by simp
    also have "\<dots> = (3 * p) div 4" by (rule floor_divide_of_int_eq)
    finally show ?thesis using True by simp
  next
    case False
    then have "\<not> 0 \<le> (of_int p * 0.75 :: real)" by simp
    then have "py_int (of_int p * 0.75) = \<lceil>of_int (3 * p) / of_int 4 :: real\<rceil>"
      unfolding py_int_def e by simp
    also have "\<dots> = - \<lfloor>of_int (3 * (- p)) / of_int 4 :: real\<rfloor>"
      by (simp add: ceiling_def)
    also have "\<dots> = - ((3 * (- p)) div 4)" by (simp only: floor_divide_of_int_eq)
    finally show ?thesis using False by simp
  qed
qed

lemma to_mmhg_1013: "to_mmhg (JInt 1013) = Inr 759"
proof -
  have "to_mmhg (JInt 1013) = Inr (py_int (of_int 1013 * 0.75))" by (rule to_mmhg_exact) simp
  also have "py_int (of_int 1013 * 0.75) = 759" by (simp only: py_int_three_quarters) simp
  finally show ?thesis .
qed

lemma to_mmhg_1000: "to_mmhg (JInt 1000) = Inr 750"
proof -
  have "to_mmhg (JInt 1000) = Inr (py_int (of_int 1000 * 0.75))" by (rule to_mmhg_exact) simp
  also have "py_int (of_int 1000 * 0.75) = 750" by (simp only: py_int_three_quarters) simp
  finally show ?thesis .
qed

lemma to_mmhg_minus_1: "to_mmhg (JInt (- 1)) = Inr 0"
proof -
  have "to_mmhg (JInt (- 1)) = Inr (py_int (of_int (- 1) * 0.75))" by (rule to_mmhg_exact) simp
  also have "py_int (of_int (- 1) * 0.75) = 0" by (simp only: py_int_three_quarters) simp
  finally show ?thesis .
qed

lemma to_mmhg_1013_third: "to_mmhg (JFloat (4456687131252053 / 4398046511104)) = Inr 760"
proof -
  have "round_to_double (4456687131252053 / 4398046511104 * 0.75) = 760"
    by (subst round_to_double_unfold [where k = 9])
       (simp_all add: round_half_even_def Let_def)
  then show ?thesis by (simp add: py_int_def)
qed

text \<open>
  Where the float product is not the exact one: a whole number whose product falls on a
  tie, and the float nearest to 4/3.
\<close>

lemma to_mmhg_tie: "to_mmhg (JInt 3002399751580333) = Inr 2251799813685250"
proof -
  have f: "float_of_int 3002399751580333 = Inr (of_int 3002399751580333)"
    by (rule float_of_int_exact) simp
  have "round_to_double (of_int 3002399751580333 * 0.75) = 2251799813685250"
    by (subst round_to_double_unfold [where k = 51])
       (simp_all add: round_half_even_def Let_def)
  then show ?thesis by (simp add: f bind_sum_def py_int_def)
qed

lemma to_mmhg_four_thirds: "to_mmhg (JFloat (6004799503160661 / 4503599627370496)) = Inr 1"
proof -
  have "round_to_double (6004799503160661 / 4503599627370496 * 0.75) = 1"
    by (subst round_to_double_unfold [where k = "- 1"])
       (simp_all add: round_half_even_def Let_def)
  then show ?thesis by (simp add: py_int_def)
qed

lemma floor_1013_third: "\<lfloor>4456687131252053 / 4398046511104 * 0.75 :: real\<rfloor> = 759"
  by (simp add: floor_eq_iff)

text \<open>
  C3, as the spec states it: the pressure shown is \<open>round (p * 0.75)\<close>. At 1013 hPa the
  product is 759.75, the code shows 759 and rounding gives 760.
\<close>

theorem C3_round_counterexample: "to_mmhg (JInt 1013) \<noteq> Inr (round (1013 * 0.75 :: real))"
proof -
  have "(1013 * 0.75 :: real) + 1 / 2 = of_int 3041 / of_int 4" by simp
  then have "round (1013 * 0.75 :: real) = \<lfloor>of_int 3041 / of_int 4 :: real\<rfloor>"
    unfolding round_def by simp
  also have "\<dots> = 3041 div 4" by (rule floor_divide_of_int_eq)
  finally have b: "round (1013 * 0.75 :: real) = 760" by simp
  show ?thesis unfolding to_mmhg_1013 b by simp
qed

text \<open>
  C3, amended: for every pressure value the pressure shown is the float product with 0.75
  with its fractional part dropped (truncated towards zero), not rounded to the nearest
  integer. A fractional value is multiplied as it is; a whole number is first converted to
  a float, exactly below \<open>2 ^ 53\<close>, with an \<^verbatim>\<open>OverflowError\<close> from \<open>2 ^ 1024\<close> on. For a
  whole \<open>p\<close> with \<open>3 * \<bar>p\<bar> < 2 ^ 53\<close> the product is exact and the pressure shown is
  \<open>3 * p div 4\<close> for \<open>p \<ge> 0\<close> and its mirror image below zero.
\<close>

theorem C3_pressure_drops_fraction:
  "(\<exists>d. to_mmhg (JFloat x) = Inr d \<and> truncation_of (round_to_double (x * 0.75)) d)
   \<and> to_mmhg (JInt p) = bind_sum (float_of_int p) (\<lambda>f. to_mmhg (JFloat f))
   \<and> (\<bar>p\<bar> < 2 ^ 53 \<longrightarrow> float_of_int p = Inr (of_int p))
   \<and> (2 ^ 1024 \<le> \<bar>p\<bar> \<longrightarrow> to_mmhg (JInt p) = Inl OverflowError)
   \<and> (3 * \<bar>p\<bar> < 2 ^ 53 \<longrightarrow>
        to_mmhg (JInt p) = Inr (if 0 \<le> p then (3 * p) div 4 else - ((3 * (- p)) div 4)))"
proof -
  have 1: "\<exists>d. to_mmhg (JFloat x) = Inr d \<and> truncation_of (round_to_double (x * 0.75)) d"
    by (simp add: py_int_truncation)
  have 4: "to_mmhg (JInt p) = Inl OverflowError" if "2 ^ 1024 \<le> \<bar>p\<bar>"
    by (simp only: to_mmhg.simps float_of_int_overflow [OF that] bind_sum_def sum.case)
  have 5: "to_mmhg (JInt p) = Inr (if 0 \<le> p then (3 * p) div 4 else - ((3 * (- p)) div 4))"
    if "3 * \<bar>p\<bar> < 2 ^ 53"
    by (simp only: to_mmhg_exact [OF that] py_int_three_quarters)
  from 1 to_mmhg_JInt [of p] float_of_int_exact [of p] 4 5 show ?thesis by blast
qed

theorem C3_pressure_drops_fraction_witness:
  "3 * \<bar>1013 :: int\<bar> < 2 ^ 53
   \<and> to_mmhg (JInt 1013) = Inr 759
   \<and> float_of_int 1013 = Inr (of_int 1013)
   \<and> (2 :: int) ^ 1024 \<le> \<bar>2 ^ 1024\<bar>
   \<and> to_mmhg (JInt (2 ^ 1024)) = Inl OverflowError"
proof -
  have a: "3 * \<bar>1013 :: int\<bar> < 2 ^ 53" by simp
  have b: "\<bar>1013 :: int\<bar> < 2 ^ 53" by simp
  have c: "(2 :: int) ^ 1024 \<le> \<bar>2 ^ 1024\<bar>" by simp
  from C3_pressure_drops_fraction [of 0 1013] a
  have "to_mmhg (JInt 1013) =
          Inr (if (0::int) \<le> 1013 then (3 * 1013) div 4 else - ((3 * (- 1013)) div 4))"
    by blast
  then have w1: "to_mmhg (JInt 1013) = Inr 759" by (simp del: to_mmhg.simps)
  from C3_pressure_drops_fraction [of 0 1013] b
  have w2: "float_of_int 1013 = Inr (of_int 1013)" by blast
  from C3_pressure_drops_fraction [of 0 "2 ^ 1024"] c
  have w3: "to_mmhg (JInt (2 ^ 1024)) = Inl OverflowError" by blast
  from a w1 w2 c w3 show ?thesis by blast
qed

text \<open>
  C4, as the spec states it: the pressure shown is \<open>floor (p * 0.75)\<close>. At \<open>- 1\<close> the code
  shows 0 and the floor is \<open>- 1\<close>; at the float nearest to 1013.3333333333333 the float
  product is 760 and the code shows 760, while the floor of the exact product is 759.
\<close>

theorem C4_floor_counterexample:
  "to_mmhg (JInt (- 1)) \<noteq> Inr \<lfloor>of_int (- 1) * 0.75 :: real\<rfloor>
   \<and> to_mmhg (JFloat (4456687131252053 / 4398046511104))
       \<noteq> Inr \<lfloor>4456687131252053 / 4398046511104 * 0.75 :: real\<rfloor>"
proof -
  have "\<lfloor>of_int (- 1) * 0.75 :: real\<rfloor> = - 1" by (simp add: floor_eq_iff)
  then show ?thesis
    unfolding to_mmhg_minus_1 to_mmhg_1013_third floor_1013_third by simp
qed

text \<open>
  C4, amended: for every pressure value \<open>p \<ge> 0\<close> the pressure shown is the floor of the
  float product with 0.75 (a whole number being converted to a float first), and below
  zero the product is truncated towards zero instead. As long as the exact product is
  below \<open>2 ^ 52\<close> the pressure shown lies between its floor and its ceiling; for a whole
  \<open>p \<ge> 0\<close> with \<open>3 * p < 2 ^ 53\<close> it is the floor of the exact product. 1000 hPa shows as
  750 and 1013 hPa as 759.
\<close>

theorem C4_pressure_truncates:
  "(0 \<le> x \<longrightarrow> to_mmhg (JFloat x) = Inr \<lfloor>round_to_double (x * 0.75)\<rfloor>)
   \<and> (x \<le> 0 \<longrightarrow> to_mmhg (JFloat x) = Inr \<lceil>round_to_double (x * 0.75)\<rceil>)
   \<and> (0 \<le> x \<and> x * 0.75 < 2 ^ 52 \<longrightarrow>
        (\<exists>d. to_mmhg (JFloat x) = Inr d \<and> \<lfloor>x * 0.75\<rfloor> \<le> d \<and> d \<le> \<lceil>x * 0.75\<rceil>))
   \<and> (0 \<le> p \<longrightarrow>
        to_mmhg (JInt p) =
          bind_sum (float_of_int p) (\<lambda>f. Inr \<lfloor>round_to_double (f * 0.75)\<rfloor>))
   \<and> (0 \<le> p \<and> 3 * p < 2 ^ 53 \<longrightarrow> to_mmhg (JInt p) = Inr \<lfloor>of_int p * 0.75 :: real\<rfloor>)
   \<and> to_mmhg (JInt 1000) = Inr 750
   \<and> to_mmhg (JInt 1013) = Inr 759"
proof -
  have 1: "to_mmhg (JFloat x) = Inr \<lfloor>round_to_double (x * 0.75)\<rfloor>" if "0 \<le> x"
  proof -
    from that have "0 \<le> round_to_double (x * 0.75)" by (intro round_to_double_nonneg) simp
    then show ?thesis by (simp add: py_int_def)
  qed
  have 2: "to_mmhg (JFloat x) = Inr \<lceil>round_to_double (x * 0.75)\<rceil>" if "x \<le> 0"
  proof -
    from that have r: "round_to_double (x * 0.75) \<le> 0"
      by (intro round_to_double_nonpos) (simp add: mult_le_0_iff)
    show ?thesis
    proof (cases "round_to_double (x * 0.75) = 0")
      case True
      then show ?thesis by (simp add: py_int_def)
    next
      case False
      with r have "\<not> 0 \<le> round_to_double (x * 0.75)" by simp
      then show ?thesis by (simp add: py_int_def)
    qed
  qed
  have 3: "\<exists>d. to_mmhg (JFloat x) = Inr d \<and> \<lfloor>x * 0.75\<rfloor> \<le> d \<and> d \<le> \<lceil>x * 0.75\<rceil>"
    if h: "0 \<le> x \<and> x * 0.75 < 2 ^ 52"
  proof -
    from h have "\<bar>x * 0.75\<bar> < 2 ^ 52" by simp
    note b = round_to_double_between [OF this]
    from b(1) have "\<lfloor>x * 0.75\<rfloor> \<le> \<lfloor>round_to_double (x * 0.75)\<rfloor>" by (simp only: le_floor_iff)
    moreover have "\<lfloor>round_to_double (x * 0.75)\<rfloor> \<le> \<lceil>x * 0.75\<rceil>"
    proof -
      have "of_int \<lfloor>round_to_double (x * 0.75)\<rfloor> \<le> round_to_double (x * 0.75)" by simp
      with b(2) have "real_of_int \<lfloor>round_to_double (x * 0.75)\<rfloor> \<le> real_of_int \<lceil>x * 0.75\<rceil>"
        by linarith
      then show ?thesis by (simp only: of_int_le_iff)
    qed
    ultimately show ?thesis using 1 h by simp
  qed
  have 4: "to_mmhg (JInt p) =
             bind_sum (float_of_int p) (\<lambda>f. Inr \<lfloor>round_to_double (f * 0.75)\<rfloor>)"
    if p: "0 \<le> p"
  proof (cases "float_of_int p")
    case (Inl e)
    then show ?thesis by (simp add: bind_sum_def)
  next
    case (Inr f)
    then have "f = round_to_double (of_int p)" by (simp add: float_of_int_def split: if_splits)
    with p have "0 \<le> f" by (simp add: round_to_double_nonneg)
    then have "0 \<le> round_to_double (f * 0.75)" by (intro round_to_double_nonneg) simp
    then show ?thesis using Inr by (simp add: bind_sum_def py_int_def)
  qed
  have 5: "to_mmhg (JInt p) = Inr \<lfloor>of_int p * 0.75 :: real\<rfloor>" if h: "0 \<le> p \<and> 3 * p < 2 ^ 53"
  proof -
    from h have "3 * \<bar>p\<bar> < 2 ^ 53" by simp
    then have "to_mmhg (JInt p) = Inr (py_int (of_int p * 0.75))" by (rule to_mmhg_exact)
    moreover have "0 \<le> real_of_int p * 0.75" using h by simp
    ultimately show ?thesis by (simp add: py_int_def)
  qed
  from 1 2 3 4 5 to_mmhg_1000 to_mmhg_1013 show ?thesis by blast
qed

theorem C4_pressure_truncates_witness:
  "(0::int) \<le> 1013 \<and> 3 * 1013 < (2::int) ^ 53
   \<and> to_mmhg (JInt 1013) = Inr \<lfloor>of_int 1013 * 0.75 :: real\<rfloor>
   \<and> to_mmhg (JInt 1013) = Inr 759
   \<and> (0::real) \<le> 2027 / 2 \<and> (2027 / 2 :: real) * 0.75 < 2 ^ 52
   \<and> (\<exists>d. to_mmhg (JFloat (2027 / 2)) = Inr d \<and> 760 \<le> d \<and> d \<le> 761)
   \<and> to_mmhg (JFloat 0) = Inr 0"
proof -
  have a: "(0::int) \<le> 1013 \<and> 3 * 1013 < (2::int) ^ 53" by simp
  have b: "(0::real) \<le> 2027 / 2 \<and> (2027 / 2 :: real) * 0.75 < 2 ^ 52" by simp
  have f: "\<lfloor>2027 / 2 * 0.75 :: real\<rfloor> = 760" "\<lceil>2027 / 2 * 0.75 :: real\<rceil> = 761"
    by (simp_all add: floor_eq_iff ceiling_eq_iff)
  have z: "\<lfloor>round_to_double (0 * 0.75)\<rfloor> = 0" by (simp add: round_to_double_def)
  have o: "(0::real) \<le> 0" by simp
  from C4_pressure_truncates [of "2027 / 2" 1013] a
  have v1: "to_mmhg (JInt 1013) = Inr \<lfloor>of_int 1013 * 0.75 :: real\<rfloor>" by blast
  from C4_pressure_truncates [of "2027 / 2" 1013]
  have v2: "to_mmhg (JInt 1013) = Inr 759" by blast
  from C4_pressure_truncates [of "2027 / 2" 1013] b
  have "\<exists>d. to_mmhg (JFloat (2027 / 2)) = Inr d
          \<and> \<lfloor>2027 / 2 * 0.75 :: real\<rfloor> \<le> d \<and> d \<le> \<lceil>2027 / 2 * 0.75 :: real\<rceil>"
    by blast
  then have v3: "\<exists>d. to_mmhg (JFloat (2027 / 2)) = Inr d \<and> 760 \<le> d \<and> d \<le> 761"
    unfolding f .
  from C4_pressure_truncates [of 0 1013] o
  have "to_mmhg (JFloat 0) = Inr \<lfloor>round_to_double (0 * 0.75)\<rfloor>" by blast
  then have v4: "to_mmhg (JFloat 0) = Inr 0" unfolding z .
  from a v1 v2 b v3 v4 show ?thesis by blast
qed

subsection \<open>Clock time\<close>

text \<open>
  C7: the time of day stored for sunrise and sunset, computed from the epoch seconds plus
  the timezone offset, is \<open>00:00\<close> for epoch 0 and \<open>05:30\<close> for epoch 3600 * 5 + 1800, both
  at offset 0.
\<close>

theorem C7_format_time_examples:
  "sun_time (JObj [(''sunrise'', JInt 0)]) ''sunrise'' (JInt 0) = Inr ''00:00''
   \<and> sun_time (JObj [(''sunrise'', JInt (3600 * 5 + 1800))]) ''sunrise'' (JInt 0) = Inr ''05:30''
   \<and> sun_time (JObj [(''sunset'', JInt 0)]) ''sunset'' (JInt 0) = Inr ''00:00''
   \<and> sun_time (JObj [(''sunset'', JInt (3600 * 5 + 1800))]) ''sunset'' (JInt 0) = Inr ''05:30''"
  by (simp add: sun_time_def bind_sum_def utcfromtimestamp_hhmm_def in_datetime_range_def
        hhmm_def two_digits_def)

subsection \<open>The workflow when it succeeds\<close>




subsection \<open>What a step leaves as it was\<close>

lemma mode_kept_refl: "mode_kept w w"
  by (simp add: mode_kept_def)

lemma mode_kept_trans: "mode_kept w w1 \<Longrightarrow> mode_kept w1 w2 \<Longrightarrow> mode_kept w w2"
  by (auto simp: mode_kept_def)

lemma steady_lift: "steady (lift_io r)"
  by (simp add: steady_def lift_io_def mode_kept_refl)

lemma steady_send: "\<not> is_failure_message m \<Longrightarrow> steady (send env m)"
  by (auto simp: steady_def send_def mode_kept_def mode_of_def)

lemma steady_get_user_state: "steady (get_user_state u)"
  by (auto simp: steady_def get_user_state_def mode_kept_def mode_of_def new_BotState_def
      split: option.splits)

lemma steady_assign: "(\<And>s. mode (f s) = mode s) \<Longrightarrow> steady (assign u f)"
  by (auto simp: steady_def assign_def mode_kept_def mode_of_def split: option.splits)

lemma assign_on_raise: "steady_on_raise (assign u f)"
  by (simp add: steady_on_raise_def assign_eq)

lemma bind_on_raise:
  assumes "steady m" and "\<And>x. steady_on_raise (f x)"
  shows "steady_on_raise (bind_io m f)"
  unfolding steady_on_raise_def
proof (intro allI impI)
  fix w e w'
  assume "bind_io m f w = (Inl e, w')"
  then consider "m w = (Inl e, w')" | x w1 where "m w = (Inr x, w1)" "f x w1 = (Inl e, w')"
    unfolding bind_io_Inl by blast
  then show "mode_kept w w'"
  proof cases
    case 1
    with assms(1) show ?thesis unfolding steady_def by blast
  next
    case 2
    from assms(1) 2(1) have "mode_kept w w1" unfolding steady_def by blast
    moreover from assms(2) 2(2) have "mode_kept w1 w'" unfolding steady_on_raise_def by blast
    ultimately show ?thesis by (rule mode_kept_trans)
  qed
qed

lemma try_on_raise: "steady_on_raise (send_weather_try env city chat_id user_id)"
  unfolding send_weather_try_def
  by (intro bind_on_raise assign_on_raise steady_lift steady_get_user_state steady_send
        steady_assign) simp_all

lemma nf_bind:
  assumes "not_found_only_from g m" and "\<And>x. not_found_only_from g (f x)"
  shows "not_found_only_from g (bind_io m f)"
  using assms unfolding not_found_only_from_def bind_io_Inl by blast

lemma nf_lift_source: "not_found_only_from g (lift_io g)"
  by (simp add: not_found_only_from_def lift_io_eq)

lemma nf_lift: "r \<noteq> Inl (ValueError CityNotFound) \<Longrightarrow> not_found_only_from g (lift_io r)"
  by (auto simp: not_found_only_from_def lift_io_eq)

lemma nf_send: "not_found_only_from g (send env m)"
  by (simp add: not_found_only_from_def send_Inl)

lemma nf_get_user_state: "not_found_only_from g (get_user_state u)"
  by (auto simp: not_found_only_from_def get_user_state_def split: option.splits)

lemma nf_assign: "not_found_only_from g (assign u f)"
  by (simp add: not_found_only_from_def assign_eq)

lemma subscript_key_error: "subscript_key v k = Inl e \<Longrightarrow> e = KeyError \<or> e = TypeError"
  by (cases v) (auto split: option.splits)

lemma subscript_0_error:
  "subscript_0 v = Inl e \<Longrightarrow> e = KeyError \<or> e = TypeError \<or> e = IndexError"
  by (cases v rule: subscript_0.cases) auto

lemma get_default_error: "get_default v k d = Inl e \<Longrightarrow> e = AttributeError"
  by (cases v) auto

lemma to_mmhg_error: "to_mmhg v = Inl e \<Longrightarrow> e = TypeError \<or> e = OverflowError"
  by (cases v) (auto simp: bind_sum_Inl float_of_int_def split: if_splits)

lemma py_add_error: "py_add a b = Inl e \<Longrightarrow> e = TypeError"
  by (induction a b rule: py_add.induct) auto

lemma timestamp_seconds_error: "timestamp_seconds v = Inl e \<Longrightarrow> e = TypeError"
  by (cases v) auto

lemma sun_time_error:
  "sun_time s k z = Inl e \<Longrightarrow> e = AttributeError \<or> e = TypeError \<or> e = ValueError LibraryText"
  by (auto simp: sun_time_def utcfromtimestamp_hhmm_def bind_sum_Inl
      dest: get_default_error py_add_error timestamp_seconds_error split: if_splits)

lemma icon_code_error:
  "icon_code v = Inl e \<Longrightarrow>
     e = KeyError \<or> e = TypeError \<or> e = IndexError \<or> e = AttributeError"
  by (auto simp: icon_code_def bind_sum_Inl
      dest: subscript_key_error subscript_0_error get_default_error)

lemma fetch_weather_data_error:
  "fetch_weather_data env lat lon = Inl e \<Longrightarrow> e = ClientError \<or> e = ValueError WeatherFetchFailed"
  by (auto simp: fetch_weather_data_def split: http_reply.splits body.splits if_splits)

lemma try_not_found:
  "not_found_only_from (fetch_geo_data env city) (send_weather_try env city chat_id user_id)"
  unfolding send_weather_try_def
  apply (intro nf_bind nf_lift_source nf_send nf_get_user_state nf_assign)
  apply (rule nf_lift; auto simp: bind_sum_Inl
      dest: subscript_key_error get_default_error to_mmhg_error sun_time_error icon_code_error
        fetch_weather_data_error)+
  done

lemmas sample_defs = sample_env_def sample_world_def sample_weather_def sample_geo_def
  lost_env_def down_env_def bare_env_def odd_env_def

lemmas client_defs = fetch_geo_data_def fetch_weather_data_def icon_code_def sun_time_def
  utcfromtimestamp_hhmm_def in_datetime_range_def hhmm_def two_digits_def

subsection \<open>The workflow when a step raises\<close>

lemma send_weather_failed:
  assumes "send_weather_try env city chat_id user_id w = (Inl e, w1)"
  shows "send_weather env city chat_id user_id w = send env (failure_message chat_id e) w1"
  using assms
  by (simp add: send_weather_def try_except_def send_weather_except_def failure_message_def)

lemma failure_message_is: "is_failure_message (failure_message chat_id e)"
  by (simp add: failure_message_def error_message_def)

lemma odd_run:
  "send_weather_try odd_env ''Moscow'' 7 7 sample_world =
     (Inl TypeError, sample_world\<lparr>sent := [SendPhoto 7 (JStr [])]\<rparr>)"
  by (simp add: send_weather_try_def sample_defs io_defs client_defs)

lemma lost_run:
  "send_weather_try lost_env ''Atlantis'' 7 7 sample_world =
     (Inl (ValueError CityNotFound), sample_world)"
  by (simp add: send_weather_try_def sample_defs io_defs client_defs)

lemma down_run:
  "send_weather_try down_env ''Moscow'' 7 7 sample_world =
     (Inl (ValueError GeoFetchFailed), sample_world)"
  by (simp add: send_weather_try_def sample_defs io_defs client_defs)

lemma bare_run:
  "send_weather_try bare_env ''Moscow'' 7 7 sample_world = (Inl KeyError, sample_world)"
  by (simp add: send_weather_try_def sample_defs io_defs client_defs)

text \<open>
  C2: when a statement of the \<^verbatim>\<open>try\<close> raises, whatever the exception and whatever the
  mode before, every user's mode after the workflow is the mode before it; and when the
  transport takes the message of the \<^verbatim>\<open>except\<close> clause, the workflow returns normally,
  exactly one failure message has been sent, and its keyboard is the single button with
  payload \<open>start\<close>.
\<close>

theorem C2_failure_keeps_mode:
  assumes "send_weather_try env city chat_id user_id w = (Inl e, w1)"
  shows "mode_of (snd (send_weather env city chat_id user_id w)) u = mode_of w u
    \<and> (delivers env (failure_message chat_id e) \<longrightarrow>
         (\<exists>w2. send_weather env city chat_id user_id w = (Inr (), w2)
            \<and> mode_of w2 u = mode_of w u
            \<and> filter is_failure_message (drop (length (sent w)) (sent w2))
                = [failure_message chat_id e]
            \<and> failure_message chat_id e
                = SendMessage chat_id (error_message e) (Some retry_keyboard)
            \<and> map callback_data (buttons retry_keyboard) = [''start'']))"
proof -
  from try_on_raise assms have k: "mode_kept w w1"
    unfolding steady_on_raise_def by blast
  then obtain new where m: "\<And>v. mode_of w1 v = mode_of w v"
    and s: "sent w1 = sent w @ new" and f: "filter is_failure_message new = []"
    unfolding mode_kept_def by blast
  note sw = send_weather_failed [OF assms]
  have 1: "mode_of (snd (send_weather env city chat_id user_id w)) u = mode_of w u"
    unfolding sw using m by (simp add: send_def mode_of_def)
  have 2: "\<exists>w2. send_weather env city chat_id user_id w = (Inr (), w2)
            \<and> mode_of w2 u = mode_of w u
            \<and> filter is_failure_message (drop (length (sent w)) (sent w2))
                = [failure_message chat_id e]
            \<and> failure_message chat_id e
                = SendMessage chat_id (error_message e) (Some retry_keyboard)
            \<and> map callback_data (buttons retry_keyboard) = [''start'']"
    if d: "delivers env (failure_message chat_id e)"
  proof -
    let ?w2 = "w1\<lparr>sent := sent w1 @ [failure_message chat_id e]\<rparr>"
    have a: "send_weather env city chat_id user_id w = (Inr (), ?w2)"
      unfolding sw using d by (simp add: send_def)
    have b: "mode_of ?w2 u = mode_of w u" using m by (simp add: mode_of_def)
    have c: "filter is_failure_message (drop (length (sent w)) (sent ?w2))
               = [failure_message chat_id e]"
      using f by (simp add: s failure_message_is)
    have e: "map callback_data (buttons retry_keyboard) = [''start'']"
      by (simp add: retry_keyboard_def)
    from a b c e show ?thesis by (simp add: failure_message_def)
  qed
  from 1 2 show ?thesis by blast
qed

theorem C2_failure_keeps_mode_witness:
  "send_weather_try odd_env ''Moscow'' 7 7 sample_world =
     (Inl TypeError, sample_world\<lparr>sent := [SendPhoto 7 (JStr [])]\<rparr>)
   \<and> delivers odd_env (failure_message 7 TypeError)
   \<and> mode_of sample_world 7 = city_choice
   \<and> (\<exists>w2. send_weather odd_env ''Moscow'' 7 7 sample_world = (Inr (), w2)
         \<and> mode_of w2 7 = city_choice
         \<and> filter is_failure_message (drop (length (sent sample_world)) (sent w2))
             = [SendMessage 7 SomethingWrong (Some retry_keyboard)])"
proof -
  have d: "delivers odd_env (failure_message 7 TypeError)"
    by (simp add: sample_defs)
  have m: "mode_of sample_world 7 = city_choice"
    by (simp add: mode_of_def sample_defs)
  have t: "failure_message 7 TypeError = SendMessage 7 SomethingWrong (Some retry_keyboard)"
    by (simp add: failure_message_def error_message_def)
  from C2_failure_keeps_mode [OF odd_run, of 7] d m t odd_run show ?thesis by auto
qed

lemma fetch_geo_data_not_found:
  "fetch_geo_data env city = Inl (ValueError CityNotFound) \<longleftrightarrow>
     (\<exists>data. geo_reply env city = Reply 200 (Body data) \<and> \<not> truthy data)"
  by (auto simp: fetch_geo_data_def split: http_reply.splits body.splits if_splits
      dest: subscript_0_error)

lemma error_message_not_found:
  "error_message e = CityNotFoundTryAnother \<longleftrightarrow> e = ValueError CityNotFound"
  by (cases e) (auto simp: error_message_def)

text \<open>
  C6: the geocoding raises the not-found error exactly when the provider answers 200 with
  an empty body (for a JSON array: the empty array), and the provider error whenever the
  status is not 200. When a statement of the \<^verbatim>\<open>try\<close> raises, the message is one of two,
  the not-found one exactly when the error is the not-found error of the geocoding, and
  the workflow returns normally once the transport has taken that message.
\<close>

theorem C6_errors_to_two_messages:
  "(fetch_geo_data env city = Inl (ValueError CityNotFound) \<longleftrightarrow>
      (\<exists>data. geo_reply env city = Reply 200 (Body data) \<and> \<not> truthy data))
   \<and> (geo_reply env city = Reply status (Body (JArr xs)) \<longrightarrow>
        (fetch_geo_data env city = Inl (ValueError CityNotFound) \<longleftrightarrow> status = 200 \<and> xs = []))
   \<and> (geo_reply env city = Reply status b \<and> status \<noteq> 200 \<longrightarrow>
        fetch_geo_data env city = Inl (ValueError GeoFetchFailed))
   \<and> (send_weather_try env city chat_id user_id w = (Inl e, w1) \<longrightarrow>
        (error_message e = CityNotFoundTryAnother \<or> error_message e = SomethingWrong)
      \<and> (error_message e = CityNotFoundTryAnother \<longleftrightarrow> e = ValueError CityNotFound)
      \<and> (e = ValueError CityNotFound \<longleftrightarrow>
           fetch_geo_data env city = Inl (ValueError CityNotFound))
      \<and> (delivers env (SendMessage chat_id (error_message e) (Some retry_keyboard)) \<longrightarrow>
           send_weather env city chat_id user_id w =
             (Inr (), w1\<lparr>sent := sent w1 @
                [SendMessage chat_id (error_message e) (Some retry_keyboard)]\<rparr>)))"
proof -
  have 2: "fetch_geo_data env city = Inl (ValueError CityNotFound) \<longleftrightarrow> status = 200 \<and> xs = []"
    if "geo_reply env city = Reply status (Body (JArr xs))"
    using that by (auto simp: fetch_geo_data_not_found)
  have 3: "fetch_geo_data env city = Inl (ValueError GeoFetchFailed)"
    if "geo_reply env city = Reply status b \<and> status \<noteq> 200"
    using that by (simp add: fetch_geo_data_def)
  have 4: "(error_message e = CityNotFoundTryAnother \<or> error_message e = SomethingWrong)
      \<and> (error_message e = CityNotFoundTryAnother \<longleftrightarrow> e = ValueError CityNotFound)
      \<and> (e = ValueError CityNotFound \<longleftrightarrow>
           fetch_geo_data env city = Inl (ValueError CityNotFound))
      \<and> (delivers env (SendMessage chat_id (error_message e) (Some retry_keyboard)) \<longrightarrow>
           send_weather env city chat_id user_id w =
             (Inr (), w1\<lparr>sent := sent w1 @
                [SendMessage chat_id (error_message e) (Some retry_keyboard)]\<rparr>))"
    if t: "send_weather_try env city chat_id user_id w = (Inl e, w1)"
  proof -
    have a: "error_message e = CityNotFoundTryAnother \<or> error_message e = SomethingWrong"
      by (simp add: error_message_def)
    have b: "e = ValueError CityNotFound \<Longrightarrow>
               fetch_geo_data env city = Inl (ValueError CityNotFound)"
      using try_not_found [of env city chat_id user_id] t
      unfolding not_found_only_from_def by blast
    have c: "e = ValueError CityNotFound"
      if g: "fetch_geo_data env city = Inl (ValueError CityNotFound)"
      using t unfolding send_weather_try_def bind_io_Inl [of "lift_io (fetch_geo_data env city)"]
      by (simp add: lift_io_eq g)
    have d: "send_weather env city chat_id user_id w =
             (Inr (), w1\<lparr>sent := sent w1 @
                [SendMessage chat_id (error_message e) (Some retry_keyboard)]\<rparr>)"
      if "delivers env (SendMessage chat_id (error_message e) (Some retry_keyboard))"
      unfolding send_weather_failed [OF t] using that by (simp add: send_def failure_message_def)
    from a b c d show ?thesis by (auto simp: error_message_not_found)
  qed
  note 1 = fetch_geo_data_not_found [of env city]
  from 1 2 3 4 show ?thesis by blast
qed

theorem C6_errors_to_two_messages_witness:
  "geo_reply lost_env ''Atlantis'' = Reply 200 (Body (JArr []))
   \<and> fetch_geo_data lost_env ''Atlantis'' = Inl (ValueError CityNotFound)
   \<and> send_weather_try lost_env ''Atlantis'' 7 7 sample_world =
       (Inl (ValueError CityNotFound), sample_world)
   \<and> delivers lost_env (SendMessage 7 CityNotFoundTryAnother (Some retry_keyboard))
   \<and> send_weather lost_env ''Atlantis'' 7 7 sample_world =
       (Inr (), sample_world\<lparr>sent := [SendMessage 7 CityNotFoundTryAnother (Some retry_keyboard)]\<rparr>)
   \<and> geo_reply down_env ''Moscow'' = Reply 503 Unparsable
   \<and> (503 :: int) \<noteq> 200
   \<and> fetch_geo_data down_env ''Moscow'' = Inl (ValueError GeoFetchFailed)
   \<and> send_weather_try down_env ''Moscow'' 7 7 sample_world =
       (Inl (ValueError GeoFetchFailed), sample_world)
   \<and> delivers down_env (SendMessage 7 SomethingWrong (Some retry_keyboard))
   \<and> send_weather down_env ''Moscow'' 7 7 sample_world =
       (Inr (), sample_world\<lparr>sent := [SendMessage 7 SomethingWrong (Some retry_keyboard)]\<rparr>)"
proof -
  have g1: "geo_reply lost_env ''Atlantis'' = Reply 200 (Body (JArr []))"
    by (simp add: sample_defs)
  have g2: "geo_reply down_env ''Moscow'' = Reply 503 Unparsable"
    by (simp add: sample_defs)
  have d1: "delivers lost_env (SendMessage 7 CityNotFoundTryAnother (Some retry_keyboard))"
    by (simp add: sample_defs)
  have d2: "delivers down_env (SendMessage 7 SomethingWrong (Some retry_keyboard))"
    by (simp add: sample_defs)
  have s: "sent sample_world = []" by (simp add: sample_defs)
  from C6_errors_to_two_messages
         [of lost_env "''Atlantis''" 200 "[]" "Body (JArr [])" 7 7 sample_world
            "ValueError CityNotFound" sample_world]
       C6_errors_to_two_messages
         [of down_env "''Moscow''" 503 "[]" Unparsable 7 7 sample_world
            "ValueError GeoFetchFailed" sample_world]
       g1 g2 d1 d2 lost_run down_run s
  show ?thesis by (simp add: error_message_def)
qed

subsection \<open>A weather answer without an entry\<close>

lemma icon_code_Inr:
  "icon_code weather = Inr icon \<longleftrightarrow>
     (\<exists>kvs entry rest. weather = JObj kvs
        \<and> map_of kvs ''weather'' = Some (JArr (JObj entry # rest))
        \<and> icon = (case map_of entry ''icon'' of None \<Rightarrow> JStr [] | Some i \<Rightarrow> i))"
proof
  assume a: "icon_code weather = Inr icon"
  then obtain entries entry where 1: "subscript_key weather ''weather'' = Inr entries"
    and 2: "subscript_0 entries = Inr entry" and 3: "get_default entry ''icon'' (JStr []) = Inr icon"
    unfolding icon_code_def bind_sum_Inr by blast
  from 1 obtain kvs where w: "weather = JObj kvs" and k: "map_of kvs ''weather'' = Some entries"
    by (cases weather) (auto split: option.splits)
  from 3 obtain e where e: "entry = JObj e"
    and i: "icon = (case map_of e ''icon'' of None \<Rightarrow> JStr [] | Some i \<Rightarrow> i)"
    by (cases entry) auto
  from 2 e obtain rest where "entries = JArr (JObj e # rest)"
    by (cases entries rule: subscript_0.cases) auto
  with w k i show "\<exists>kvs entry rest. weather = JObj kvs
        \<and> map_of kvs ''weather'' = Some (JArr (JObj entry # rest))
        \<and> icon = (case map_of entry ''icon'' of None \<Rightarrow> JStr [] | Some i \<Rightarrow> i)"
    by blast
next
  assume "\<exists>kvs entry rest. weather = JObj kvs
        \<and> map_of kvs ''weather'' = Some (JArr (JObj entry # rest))
        \<and> icon = (case map_of entry ''icon'' of None \<Rightarrow> JStr [] | Some i \<Rightarrow> i)"
  then show "icon_code weather = Inr icon"
    by (auto simp: icon_code_def bind_sum_def)
qed

text \<open>
  C10: when the weather endpoint answers 200 with an object that has no \<^verbatim>\<open>weather\<close> key,
  or an empty array under it, the \<^verbatim>\<open>try\<close> raises before anything is sent and the workflow
  sends the generic failure message with its single \<open>start\<close> button, leaving every state as
  it was. The icon code is defined exactly when the first entry of the array is an
  object; it is the empty string by default only when that object has no \<^verbatim>\<open>icon\<close> key.
\<close>

theorem C10_missing_weather_entry:
  "(fetch_geo_data env city = Inr geo_data
      \<and> subscript_key geo_data ''lat'' = Inr lat
      \<and> subscript_key geo_data ''lon'' = Inr lon
      \<and> weather_reply env lat lon = Reply 200 (Body (JObj kvs))
      \<and> (map_of kvs ''weather'' = None \<or> map_of kvs ''weather'' = Some (JArr []))
      \<and> delivers env (SendMessage chat_id SomethingWrong (Some retry_keyboard))
     \<longrightarrow> send_weather_try env city chat_id user_id w =
           (Inl (if map_of kvs ''weather'' = None then KeyError else IndexError), w)
       \<and> send_weather env city chat_id user_id w =
           (Inr (), w\<lparr>sent := sent w @ [SendMessage chat_id SomethingWrong (Some retry_keyboard)]\<rparr>)
       \<and> buttons retry_keyboard = [InlineKeyboardButton LblTryAgain ''start''])
   \<and> (icon_code weather = Inr icon \<longleftrightarrow>
        (\<exists>obj entry rest. weather = JObj obj
           \<and> map_of obj ''weather'' = Some (JArr (JObj entry # rest))
           \<and> icon = (case map_of entry ''icon'' of None \<Rightarrow> JStr [] | Some i \<Rightarrow> i)))"
proof -
  have 1: "send_weather_try env city chat_id user_id w =
             (Inl (if map_of kvs ''weather'' = None then KeyError else IndexError), w)
         \<and> send_weather env city chat_id user_id w =
             (Inr (), w\<lparr>sent := sent w @ [SendMessage chat_id SomethingWrong (Some retry_keyboard)]\<rparr>)
         \<and> buttons retry_keyboard = [InlineKeyboardButton LblTryAgain ''start'']"
    if h: "fetch_geo_data env city = Inr geo_data
      \<and> subscript_key geo_data ''lat'' = Inr lat
      \<and> subscript_key geo_data ''lon'' = Inr lon
      \<and> weather_reply env lat lon = Reply 200 (Body (JObj kvs))
      \<and> (map_of kvs ''weather'' = None \<or> map_of kvs ''weather'' = Some (JArr []))
      \<and> delivers env (SendMessage chat_id SomethingWrong (Some retry_keyboard))"
  proof -
    have fw: "fetch_weather_data env lat lon = Inr (JObj kvs)"
      using h by (simp add: fetch_weather_data_def)
    have ic: "icon_code (JObj kvs) = Inl (if map_of kvs ''weather'' = None then KeyError else IndexError)"
      using h by (auto simp: icon_code_def bind_sum_def)
    have t: "send_weather_try env city chat_id user_id w =
               (Inl (if map_of kvs ''weather'' = None then KeyError else IndexError), w)"
      using h by (simp add: send_weather_try_def bind_io_def lift_io_def fw ic)
    have "send_weather env city chat_id user_id w =
            (Inr (), w\<lparr>sent := sent w @ [SendMessage chat_id SomethingWrong (Some retry_keyboard)]\<rparr>)"
      unfolding send_weather_failed [OF t] using h
      by (simp add: send_def failure_message_def error_message_def)
    with t show ?thesis by (simp add: retry_keyboard_def)
  qed
  from 1 icon_code_Inr [of weather icon] show ?thesis by blast
qed

theorem C10_missing_weather_entry_witness:
  "fetch_geo_data bare_env ''Moscow'' = Inr (JObj [(''lat'', JFloat 55.75), (''lon'', JFloat 37.62)])
   \<and> weather_reply bare_env (JFloat 55.75) (JFloat 37.62) = Reply 200 (Body (JObj [(''main'', JObj [])]))
   \<and> map_of [(''main'', JObj [])] ''weather'' = None
   \<and> delivers bare_env (SendMessage 7 SomethingWrong (Some retry_keyboard))
   \<and> send_weather_try bare_env ''Moscow'' 7 7 sample_world = (Inl KeyError, sample_world)
   \<and> send_weather bare_env ''Moscow'' 7 7 sample_world =
       (Inr (), sample_world\<lparr>sent := [SendMessage 7 SomethingWrong (Some retry_keyboard)]\<rparr>)
   \<and> icon_code (JObj [(''weather'', JArr [JObj []])]) = Inr (JStr [])"
proof -
  have g: "fetch_geo_data bare_env ''Moscow'' = Inr (JObj [(''lat'', JFloat 55.75), (''lon'', JFloat 37.62)])"
    by (simp add: sample_defs fetch_geo_data_def)
  have r: "weather_reply bare_env (JFloat 55.75) (JFloat 37.62) = Reply 200 (Body (JObj [(''main'', JObj [])]))"
    by (simp add: sample_defs)
  have d: "delivers bare_env (SendMessage 7 SomethingWrong (Some retry_keyboard))"
    by (simp add: sample_defs)
  have s: "sent sample_world = []" by (simp add: sample_defs)
  from C10_missing_weather_entry
         [of bare_env "''Moscow''" "JObj [(''lat'', JFloat 55.75), (''lon'', JFloat 37.62)]"
            "JFloat 55.75" "JFloat 37.62" "[(''main'', JObj [])]" 7 7 sample_world
            "JObj [(''weather'', JArr [JObj []])]" "JStr []"]
       g r d s
  show ?thesis by simp
qed

subsection \<open>Button presses\<close>

text \<open>
  C9: in mode \<open>city_choice\<close> a press whose payload is neither \<open>start\<close> nor \<open>other\<close> runs
  the weather workflow with the payload as the city name, for the presser and the chat of
  the message; the payload need not be one of the four city tokens (the instance below presses
  \<open>yes\<close>).
\<close>

theorem C9_other_payload_is_city:
  assumes "user_states w (cq_from_user call) = Some st"
    and "mode st = city_choice"
    and "cq_data call \<noteq> ''start''"
    and "cq_data call \<noteq> ''other''"
  shows "button_click env call w =
           send_weather env (cq_data call) (msg_chat (cq_message call)) (cq_from_user call) w"
  using assms by (simp add: button_click_def bind_io_def get_user_state_Some)

theorem C9_other_payload_is_city_witness:
  "user_states sample_world (cq_from_user (click ''yes'')) = Some \<lparr>mode = city_choice, sunrise = [], sunset = []\<rparr>
   \<and> cq_data (click ''yes'') = ''yes''
   \<and> button_click sample_env (click ''yes'') sample_world =
       send_weather sample_env ''yes'' 7 7 sample_world"
proof -
  have u: "user_states sample_world (cq_from_user (click ''yes'')) =
             Some \<lparr>mode = city_choice, sunrise = [], sunset = []\<rparr>"
    by (simp add: sample_defs click_def)
  have "button_click sample_env (click ''yes'') sample_world =
          send_weather sample_env (cq_data (click ''yes'')) (msg_chat (cq_message (click ''yes'')))
            (cq_from_user (click ''yes'')) sample_world"
    by (rule C9_other_payload_is_city [OF u]) (simp_all add: click_def)
  with u show ?thesis by (simp add: click_def)
qed

text \<open>
  C8: in mode \<open>sun_question\<close>, with the transport taking the messages, a press of \<open>yes\<close>
  sends the message with the stored sunrise and sunset and then the new-request prompt;
  a press of any other payload but \<open>start\<close> sends the prompt alone; either way the
  presser's mode becomes \<open>city_choice\<close> and nothing else changes.
\<close>

theorem C8_sun_question_answer:
  assumes "user_states w (cq_from_user call) = Some st"
    and "mode st = sun_question"
    and "cq_data call \<noteq> ''start''"
    and "cq_data call = ''yes'' \<longrightarrow>
           delivers env (SendMessage (msg_chat (cq_message call)) (SunTimes (sunrise st) (sunset st)) None)"
    and "delivers env (SendMessage (msg_chat (cq_message call)) NewRequest (Some new_request_keyboard))"
  shows "button_click env call w =
     (Inr (),
      w\<lparr>sent := sent w @
           (if cq_data call = ''yes''
            then [SendMessage (msg_chat (cq_message call)) (SunTimes (sunrise st) (sunset st)) None]
            else []) @
           [SendMessage (msg_chat (cq_message call)) NewRequest (Some new_request_keyboard)],
        user_states := (user_states w)(cq_from_user call \<mapsto> st\<lparr>mode := city_choice\<rparr>)\<rparr>)
     \<and> buttons new_request_keyboard = [InlineKeyboardButton LblStartOver ''start'']"
  using assms
  by (simp add: button_click_def bind_io_def get_user_state_Some send_def assign_def return_io_def
        new_request_keyboard_def)

theorem C8_sun_question_answer_witness:
  "button_click sample_env (click ''yes'') asked_world =
     (Inr (),
      \<lparr>user_states = [7 \<mapsto> \<lparr>mode = city_choice, sunrise = ''05:30'', sunset = ''17:00''\<rparr>],
       sent = [SendMessage 7 (SunTimes ''05:30'' ''17:00'') None,
               SendMessage 7 NewRequest (Some new_request_keyboard)]\<rparr>)
   \<and> button_click sample_env (click ''no'') asked_world =
     (Inr (),
      \<lparr>user_states = [7 \<mapsto> \<lparr>mode = city_choice, sunrise = ''05:30'', sunset = ''17:00''\<rparr>],
       sent = [SendMessage 7 NewRequest (Some new_request_keyboard)]\<rparr>)"
proof -
  let ?st = "\<lparr>mode = sun_question, sunrise = ''05:30'', sunset = ''17:00''\<rparr>"
  have u: "user_states asked_world (cq_from_user (click d)) = Some ?st" for d
    by (simp add: asked_world_def click_def)
  have m: "mode ?st = sun_question" by simp
  have d: "delivers sample_env msg" for msg by (simp add: sample_defs)
  have y: "cq_data (click ''yes'') \<noteq> ''start''" and n: "cq_data (click ''no'') \<noteq> ''start''"
    by (simp_all add: click_def)
  from C8_sun_question_answer [OF u m y, of sample_env] C8_sun_question_answer [OF u m n, of sample_env] d
  show ?thesis by (simp add: click_def asked_world_def)
qed

text \<open>
  C1: a press of \<open>start\<close> hands the message that carries the button to \<^verbatim>\<open>start_command\<close>,
  which sets the mode of the sender of that message. The six-button city menu is sent to
  the chat, the mode of the message's sender becomes \<open>city_choice\<close>, and every other user
  keeps the mode they had: the presser too, unless the presser is the sender of the
  message. The instance below is user 7 pressing a button under a message of the bot,
  user 42.
\<close>

theorem C1_start_click_sets_sender_of_message:
  assumes "cq_data call = ''start''"
    and "delivers env (SendMessage (msg_chat (cq_message call)) ChooseCity (Some city_keyboard))"
  shows "\<exists>w'. button_click env call w = (Inr (), w')
     \<and> sent w' = sent w @ [SendMessage (msg_chat (cq_message call)) ChooseCity (Some city_keyboard)]
     \<and> map callback_data (buttons city_keyboard) =
         [''Moscow'', ''Cape Town'', ''New York'', ''Shanghai'', ''other'', ''start'']
     \<and> mode_of w' (msg_from_user (cq_message call)) = city_choice
     \<and> (\<forall>u. u \<noteq> msg_from_user (cq_message call) \<longrightarrow> mode_of w' u = mode_of w u)"
  using assms
  by (auto simp: button_click_def start_command_def io_defs mode_of_def new_BotState_def
        city_keyboard_def cities_def split: option.splits)

theorem C1_start_click_sets_sender_of_message_witness:
  "\<exists>w'. button_click sample_env (click ''start'') asked_world = (Inr (), w')
     \<and> sent w' = [SendMessage 7 ChooseCity (Some city_keyboard)]
     \<and> cq_from_user (click ''start'') = 7
     \<and> msg_from_user (cq_message (click ''start'')) = 42
     \<and> mode_of asked_world 7 = sun_question
     \<and> mode_of w' 7 = sun_question
     \<and> mode_of w' 42 = city_choice"
proof -
  have a: "cq_data (click ''start'') = ''start''" by (simp add: click_def)
  have d: "delivers sample_env (SendMessage (msg_chat (cq_message (click ''start''))) ChooseCity (Some city_keyboard))"
    by (simp add: sample_defs)
  have m: "mode_of asked_world 7 = sun_question" by (simp add: mode_of_def asked_world_def)
  from C1_start_click_sets_sender_of_message [OF a d, of asked_world] m
  show ?thesis by (auto simp: click_def asked_world_def)
qed

end
